theory Spec2Isabelle
  imports
    Complex_Main
    "HOL-Library.AList"
    "HOL-Library.Multiset"
    "HOL-Library.Char_ord"
    "HOL-Library.List_Lexorder"
    "HOL-Library.Product_Lexorder"
begin

section \<open>Values exchanged with the inference provider\<close>

text \<open>
  The provider's reply is parsed with \<^verbatim>\<open>JSON.parse\<close>, so the candidate clusters and the
  per-tab analysis object are arbitrary JSON values. Numbers are modelled as exact
  rationals: the scores are small integers, and the quotients the code forms from them
  are compared and rounded as rationals. A property that is absent from an object reads
  as \<^verbatim>\<open>undefined\<close>, which is \<open>None\<close> here.
\<close>

datatype json =
    JNull
  | JBool bool
  | JNum rat
  | JStr string
  | JArr "json list"
  | JObj "(string \<times> json) list"

datatype js_error = TypeError | SyntaxError | Error string

text \<open>JavaScript truthiness, as used by \<^verbatim>\<open>&&\<close> and \<^verbatim>\<open>||\<close>.\<close>

fun truthy :: "json option \<Rightarrow> bool" where
  "truthy None = False"
| "truthy (Some JNull) = False"
| "truthy (Some (JBool b)) = b"
| "truthy (Some (JNum q)) = (q \<noteq> 0)"
| "truthy (Some (JStr s)) = (s \<noteq> [])"
| "truthy (Some (JArr xs)) = True"
| "truthy (Some (JObj ps)) = True"

text \<open>
  Reading a property \<^verbatim>\<open>v.k\<close>: a \<^verbatim>\<open>TypeError\<close> on \<^verbatim>\<open>null\<close>, the stored value on an
  object, \<^verbatim>\<open>undefined\<close> on the other values (none of the property names the code reads
  is defined on numbers, booleans, strings or arrays).
\<close>

fun get_prop :: "json \<Rightarrow> string \<Rightarrow> js_error + json option" where
  "get_prop JNull k = Inl TypeError"
| "get_prop (JObj ps) k = Inr (map_of ps k)"
| "get_prop v k = Inr None"

text \<open>Assigning a property keeps its position when it exists and appends it otherwise.\<close>

fun set_prop :: "string \<Rightarrow> json \<Rightarrow> json \<Rightarrow> json" where
  "set_prop k v (JObj ps) = JObj (AList.update k v ps)"
| "set_prop k v c = c"

fun tabIds_of :: "json \<Rightarrow> json list" where
  "tabIds_of (JObj ps) = (case map_of ps ''tabIds'' of Some (JArr ids) \<Rightarrow> ids | _ \<Rightarrow> [])"
| "tabIds_of c = []"

fun clusterPriority_of :: "json \<Rightarrow> rat" where
  "clusterPriority_of (JObj ps) =
     (case map_of ps ''clusterPriority'' of Some (JNum q) \<Rightarrow> q | _ \<Rightarrow> 0)"
| "clusterPriority_of c = 0"

fun name_of :: "json \<Rightarrow> json option" where
  "name_of (JObj ps) = map_of ps ''name''"
| "name_of c = None"

section \<open>Tab analyses and clusters\<close>

text \<open>
  A tab analysis as the clustering stage receives it. Identifiers are primitive JSON
  values (numbers or strings), on which the \<^verbatim>\<open>Map\<close> and \<^verbatim>\<open>Set\<close> lookups of the code
  compare by value.
\<close>

record tab_ref =
  tab_id :: json
  title :: string
  url :: string

text \<open>The extracted tab the analyzer receives.\<close>

record tab_input = tab_ref +
  metaDescription :: string
  headings :: "string list"
  textContent :: string

record tab_summary = tab_ref +
  summary :: json
  priorityScore :: int
  priorityRationale :: json
  topics :: json
  error :: "string option"

text \<open>The object literal \<^verbatim>\<open>{name, description, tabIds, clusterPriority}\<close> the code builds.\<close>

record cluster =
  name :: string
  description :: string
  tabIds :: "json list"
  clusterPriority :: rat

definition json_of_cluster :: "cluster \<Rightarrow> json" where
  "json_of_cluster c = JObj
     [(''name'', JStr (name c)),
      (''description'', JStr (description c)),
      (''tabIds'', JArr (tabIds c)),
      (''clusterPriority'', JNum (clusterPriority c))]"

text \<open>\<^verbatim>\<open>new Map(tabSummaries.map(tab => [tab.id, tab]))\<close>: a later entry replaces an earlier one.\<close>

definition tabMap :: "tab_summary list \<Rightarrow> json \<Rightarrow> tab_summary option" where
  "tabMap tabSummaries = map_of (rev (map (\<lambda>tab. (tab_id tab, tab)) tabSummaries))"

text \<open>\<^verbatim>\<open>Math.round\<close> rounds to the nearest integer, a tie towards positive infinity.\<close>

definition Math_round :: "rat \<Rightarrow> rat" where
  "Math_round q = of_int \<lfloor>q + 1 / 2\<rfloor>"

section \<open>Domain-based fallback clustering\<close>

text \<open>
  \<^verbatim>\<open>new URL(u).hostname\<close> is the platform's parser; the functions below take it as the
  parameter \<open>hostname\<close>, which returns \<open>None\<close> where the constructor throws.
\<close>

fun replace_first :: "string \<Rightarrow> string \<Rightarrow> string \<Rightarrow> string" where
  "replace_first pat rep [] = (if pat = [] then rep else [])"
| "replace_first pat rep (c # s) =
     (if take (length pat) (c # s) = pat then rep @ drop (length pat) (c # s)
      else c # replace_first pat rep s)"

definition toUpperCase_char :: "char \<Rightarrow> char" where
  "toUpperCase_char c =
     (if CHR ''a'' \<le> c \<and> c \<le> CHR ''z'' then char_of (of_char c - (32::nat)) else c)"

definition toLowerCase_char :: "char \<Rightarrow> char" where
  "toLowerCase_char c =
     (if CHR ''A'' \<le> c \<and> c \<le> CHR ''Z'' then char_of (of_char c + (32::nat)) else c)"

definition capitalize :: "string \<Rightarrow> string" where
  "capitalize k = map toUpperCase_char (take 1 k) @ drop 1 k"

definition split_dot_first :: "string \<Rightarrow> string" where
  "split_dot_first domain = takeWhile (\<lambda>c. c \<noteq> CHR ''.'') domain"

text \<open>\<^verbatim>\<open>tabMap.get(id)?.priorityScore || 3\<close>\<close>

definition score_or_3 :: "tab_summary option \<Rightarrow> int" where
  "score_or_3 t = (case t of None \<Rightarrow> 3
     | Some tab \<Rightarrow> if priorityScore tab = 0 then 3 else priorityScore tab)"

definition push_tab :: "string \<Rightarrow> json \<Rightarrow> (string \<times> cluster) list \<Rightarrow> (string \<times> cluster) list" where
  "push_tab key i clusters = AList.map_entry key (\<lambda>c. c\<lparr>tabIds := tabIds c @ [i]\<rparr>) clusters"

definition ensure_cluster :: "string \<Rightarrow> cluster \<Rightarrow> (string \<times> cluster) list \<Rightarrow> (string \<times> cluster) list" where
  "ensure_cluster key c clusters =
     (if map_of clusters key = None then clusters @ [(key, c)] else clusters)"

text \<open>The body of the \<^verbatim>\<open>forEach\<close> in the extension: a tab whose URL does not parse is skipped.\<close>

definition fallback_step_ext ::
  "(string \<Rightarrow> string option) \<Rightarrow> (string \<times> cluster) list \<Rightarrow> tab_summary \<Rightarrow> (string \<times> cluster) list" where
  "fallback_step_ext hostname clusters tab =
     (case hostname (url tab) of
        None \<Rightarrow> clusters
      | Some h \<Rightarrow>
          (let domain = replace_first ''www.'' [] h;
               clusterKey = split_dot_first domain
           in push_tab clusterKey (tab_id tab)
                (ensure_cluster clusterKey
                   \<lparr>name = capitalize clusterKey, description = ''Pages from '' @ domain,
                    tabIds = [], clusterPriority = 0\<rparr> clusters)))"

text \<open>The body of the \<^verbatim>\<open>forEach\<close> in the backend: such a tab goes to the bucket \<^verbatim>\<open>other\<close>.\<close>

definition fallback_step_be ::
  "(string \<Rightarrow> string option) \<Rightarrow> (string \<times> cluster) list \<Rightarrow> tab_summary \<Rightarrow> (string \<times> cluster) list" where
  "fallback_step_be hostname domainClusters tab =
     (case hostname (url tab) of
        None \<Rightarrow>
          push_tab ''other'' (tab_id tab)
            (ensure_cluster ''other''
               \<lparr>name = ''Other'', description = ''Miscellaneous pages'',
                tabIds = [], clusterPriority = 0\<rparr> domainClusters)
      | Some h \<Rightarrow>
          (let domain = replace_first ''www.'' [] h;
               key = (if split_dot_first domain = [] then ''unknown'' else split_dot_first domain)
           in push_tab key (tab_id tab)
                (ensure_cluster key
                   \<lparr>name = capitalize key, description = ''Pages from '' @ domain,
                    tabIds = [], clusterPriority = 0\<rparr> domainClusters)))"

text \<open>
  The second half, the same in both copies: each cluster's ids are sorted by score only
  (the sort is stable), its priority is the plain mean, and the clusters are sorted by it.
\<close>

definition fallback_finish_cluster :: "tab_summary list \<Rightarrow> cluster \<Rightarrow> cluster" where
  "fallback_finish_cluster tabSummaries c =
     (let sorted = sort_key (\<lambda>i. score_or_3 (tabMap tabSummaries i)) (tabIds c)
      in c\<lparr>tabIds := sorted,
            clusterPriority :=
              of_int (foldl (\<lambda>sum i. sum + score_or_3 (tabMap tabSummaries i)) 0 sorted)
                / of_nat (length sorted)\<rparr>)"

definition fallback_finish :: "tab_summary list \<Rightarrow> (string \<times> cluster) list \<Rightarrow> json list" where
  "fallback_finish tabSummaries clusters =
     map json_of_cluster
       (sort_key clusterPriority
          (map (fallback_finish_cluster tabSummaries)
             (filter (\<lambda>c. length (tabIds c) > 0) (map snd clusters))))"

definition fallbackClustering_ext :: "(string \<Rightarrow> string option) \<Rightarrow> tab_summary list \<Rightarrow> json list" where
  "fallbackClustering_ext hostname tabSummaries =
     fallback_finish tabSummaries (foldl (fallback_step_ext hostname) [] tabSummaries)"

definition fallbackClustering_be :: "(string \<Rightarrow> string option) \<Rightarrow> tab_summary list \<Rightarrow> json list" where
  "fallbackClustering_be hostname tabSummaries =
     fallback_finish tabSummaries (foldl (fallback_step_be hostname) [] tabSummaries)"

section \<open>Validation, conflict resolution and ordering\<close>

text \<open>
  \<^verbatim>\<open>cluster.name && cluster.tabIds && Array.isArray(cluster.tabIds)\<close>: reading a property
  of \<^verbatim>\<open>null\<close> throws.
\<close>

definition is_valid_cluster :: "json \<Rightarrow> js_error + bool" where
  "is_valid_cluster c =
     (case get_prop c ''name'' of
        Inl e \<Rightarrow> Inl e
      | Inr n \<Rightarrow>
          (case get_prop c ''tabIds'' of
             Inl e \<Rightarrow> Inl e
           | Inr t \<Rightarrow> Inr (truthy n \<and> (case t of Some (JArr ids) \<Rightarrow> True | _ \<Rightarrow> False))))"

fun filter_valid :: "json list \<Rightarrow> js_error + json list" where
  "filter_valid [] = Inr []"
| "filter_valid (c # cs) =
     (case is_valid_cluster c of
        Inl e \<Rightarrow> Inl e
      | Inr b \<Rightarrow>
          (case filter_valid cs of
             Inl e \<Rightarrow> Inl e
           | Inr r \<Rightarrow> Inr (if b then c # r else r)))"

text \<open>
  The inner \<^verbatim>\<open>filter\<close> over one cluster's ids: an id is kept when it is a key of the tab
  map and no earlier cluster (or earlier position) claimed it; the set of claimed ids is
  threaded through.
\<close>

fun filter_tabIds ::
  "(json \<Rightarrow> tab_summary option) \<Rightarrow> json set \<Rightarrow> json list \<Rightarrow> json list \<times> json set" where
  "filter_tabIds tm assignedTabIds [] = ([], assignedTabIds)"
| "filter_tabIds tm assignedTabIds (i # ids) =
     (if tm i \<noteq> None \<and> i \<notin> assignedTabIds
      then (case filter_tabIds tm (insert i assignedTabIds) ids of
              (kept, assigned') \<Rightarrow> (i # kept, assigned'))
      else filter_tabIds tm assignedTabIds ids)"

text \<open>
  The comparator orders by score and then by \<^verbatim>\<open>title.localeCompare\<close>, the platform's
  locale-sensitive comparison. It is a total preorder on strings, and the functions below
  take it as the parameter \<open>collation\<close>, a key function into a linear order:
  \<^verbatim>\<open>a.localeCompare(b)\<close> is negative, zero or positive as \<open>collation a\<close> is less than,
  equal to or greater than \<open>collation b\<close>. \<^verbatim>\<open>Array.prototype.sort\<close> is stable. Every id
  that reaches the comparator is a key of the tab map, so the second case is never used.
\<close>

definition by_score_then_title :: "(string \<Rightarrow> 'k::linorder) \<Rightarrow> tab_summary \<Rightarrow> int \<times> 'k" where
  "by_score_then_title collation tab = (priorityScore tab, collation (title tab))"

definition id_sort_key ::
  "(string \<Rightarrow> 'k::linorder) \<Rightarrow> (json \<Rightarrow> tab_summary option) \<Rightarrow> json \<Rightarrow> int \<times> 'k" where
  "id_sort_key collation tm i =
     (case tm i of Some tab \<Rightarrow> by_score_then_title collation tab | None \<Rightarrow> (0, collation []))"

definition id_score :: "(json \<Rightarrow> tab_summary option) \<Rightarrow> json \<Rightarrow> int" where
  "id_score tm i = (case tm i of Some tab \<Rightarrow> priorityScore tab | None \<Rightarrow> 0)"

text \<open>
  The body of the \<^verbatim>\<open>map\<close> callback. The mean of an empty cluster is \<^verbatim>\<open>NaN\<close> in the code
  and \<open>0\<close> here; such a cluster is removed by the \<^verbatim>\<open>filter\<close> that follows.
\<close>

definition process_cluster ::
  "(string \<Rightarrow> 'k::linorder) \<Rightarrow> (json \<Rightarrow> tab_summary option) \<Rightarrow> json set \<Rightarrow> json
     \<Rightarrow> json \<times> json set" where
  "process_cluster collation tm assignedTabIds c =
     (case filter_tabIds tm assignedTabIds (tabIds_of c) of
        (kept, assigned') \<Rightarrow>
          (let sorted = sort_key (id_sort_key collation tm) kept;
               avgPriority = of_int (foldl (\<lambda>sum i. sum + id_score tm i) 0 sorted)
                               / of_nat (length sorted)
           in (set_prop ''clusterPriority'' (JNum (Math_round (avgPriority * 10) / 10))
                 (set_prop ''tabIds'' (JArr sorted) c),
               assigned')))"

fun process_clusters ::
  "(string \<Rightarrow> 'k::linorder) \<Rightarrow> (json \<Rightarrow> tab_summary option) \<Rightarrow> json set \<Rightarrow> json list
     \<Rightarrow> json list \<times> json set" where
  "process_clusters collation tm assignedTabIds [] = ([], assignedTabIds)"
| "process_clusters collation tm assignedTabIds (c # cs) =
     (case process_cluster collation tm assignedTabIds c of
        (c', assigned') \<Rightarrow>
          (case process_clusters collation tm assigned' cs of
             (r, assigned'') \<Rightarrow> (c' # r, assigned'')))"

definition other_cluster :: "(string \<Rightarrow> 'k::linorder) \<Rightarrow> tab_summary list \<Rightarrow> json" where
  "other_cluster collation unassignedTabs =
     (let sortedUnassigned =
            map tab_id (sort_key (by_score_then_title collation) unassignedTabs)
      in json_of_cluster
           \<lparr>name = ''Other'', description = ''Uncategorized tabs'',
            tabIds = sortedUnassigned,
            clusterPriority =
              of_int (foldl (\<lambda>sum tab. sum + priorityScore tab) 0
                        (sort_key (by_score_then_title collation) unassignedTabs))
                / of_nat (length unassignedTabs)\<rparr>)"

text \<open>Everything after the \<^verbatim>\<open>Array.isArray\<close> test, which is the same text in both copies.\<close>

definition validate_array_ext ::
  "(string \<Rightarrow> 'k::linorder) \<Rightarrow> json list \<Rightarrow> tab_summary list \<Rightarrow> js_error + json list" where
  "validate_array_ext collation clusters tabSummaries =
     (case filter_valid clusters of
        Inl e \<Rightarrow> Inl e
      | Inr named \<Rightarrow>
          (case process_clusters collation (tabMap tabSummaries) {} named of
             (processed, assignedTabIds) \<Rightarrow>
               (let validClusters = filter (\<lambda>c. length (tabIds_of c) > 0) processed;
                    unassignedTabs = filter (\<lambda>tab. tab_id tab \<notin> assignedTabIds) tabSummaries;
                    validClusters' =
                      (if length unassignedTabs > 0
                       then validClusters @ [other_cluster collation unassignedTabs]
                       else validClusters)
                in Inr (sort_key clusterPriority_of validClusters'))))"

definition validate_array_be ::
  "(string \<Rightarrow> 'k::linorder) \<Rightarrow> json list \<Rightarrow> tab_summary list \<Rightarrow> js_error + json list" where
  "validate_array_be collation clusters tabSummaries =
     (case filter_valid clusters of
        Inl e \<Rightarrow> Inl e
      | Inr named \<Rightarrow>
          (case process_clusters collation (tabMap tabSummaries) {} named of
             (processed, assignedTabIds) \<Rightarrow>
               (let validClusters = filter (\<lambda>c. length (tabIds_of c) > 0) processed;
                    unassignedTabs = filter (\<lambda>tab. tab_id tab \<notin> assignedTabIds) tabSummaries;
                    validClusters' =
                      (if length unassignedTabs > 0
                       then validClusters @ [other_cluster collation unassignedTabs]
                       else validClusters)
                in Inr (sort_key clusterPriority_of validClusters'))))"

fun validateAndSortClusters_ext ::
  "(string \<Rightarrow> 'k::linorder) \<Rightarrow> (string \<Rightarrow> string option) \<Rightarrow> json \<Rightarrow> tab_summary list
     \<Rightarrow> js_error + json list" where
  "validateAndSortClusters_ext collation hostname (JArr clusters) tabSummaries =
     validate_array_ext collation clusters tabSummaries"
| "validateAndSortClusters_ext collation hostname clusters tabSummaries =
     Inr (fallbackClustering_ext hostname tabSummaries)"

fun validateAndSortClusters_be ::
  "(string \<Rightarrow> 'k::linorder) \<Rightarrow> (string \<Rightarrow> string option) \<Rightarrow> json \<Rightarrow> tab_summary list
     \<Rightarrow> js_error + json list" where
  "validateAndSortClusters_be collation hostname (JArr clusters) tabSummaries =
     validate_array_be collation clusters tabSummaries"
| "validateAndSortClusters_be collation hostname clusters tabSummaries =
     Inr (fallbackClustering_be hostname tabSummaries)"

section \<open>Reading the provider's reply\<close>

text \<open>
  A call to the provider either fails (the request is rejected, the status is not 2xx,
  the body is not the expected envelope) with a message, or yields the trimmed
  \<^verbatim>\<open>choices[0].message.content\<close>.
\<close>

datatype reply = Failed string | Content string

text \<open>
  The regular expressions \<^verbatim>\<open>/\{[\s\S]*\}/\<close> and \<^verbatim>\<open>/\[[\s\S]*\]/\<close> (the backend writes
  \<^verbatim>\<open>/\[.*\]/s\<close>): from the first opening bracket to the last closing bracket after it.
\<close>

definition match_greedy :: "char \<Rightarrow> char \<Rightarrow> string \<Rightarrow> string option" where
  "match_greedy l r s =
     (case dropWhile (\<lambda>c. c \<noteq> l) s of
        [] \<Rightarrow> None
      | c # body \<Rightarrow>
          (if r \<in> set body then Some (l # rev (dropWhile (\<lambda>c. c \<noteq> r) (rev body)))
           else None))"

text \<open>
  \<^verbatim>\<open>JSON.parse\<close> is the platform's parser; the functions below take it as the parameter
  \<open>json_parse\<close>, which returns \<open>None\<close> where it throws a \<^verbatim>\<open>SyntaxError\<close>.
\<close>

subsection \<open>The score\<close>

definition is_space :: "char \<Rightarrow> bool" where
  "is_space c = (c \<in> set [CHR '' '', CHR 0x09, CHR 0x0A, CHR 0x0B, CHR 0x0C, CHR 0x0D, CHR 0xA0])"

definition digit_val :: "char \<Rightarrow> nat option" where
  "digit_val c =
     (if CHR ''0'' \<le> c \<and> c \<le> CHR ''9'' then Some (of_char c - 48)
      else if CHR ''a'' \<le> c \<and> c \<le> CHR ''z'' then Some (of_char c - 87)
      else if CHR ''A'' \<le> c \<and> c \<le> CHR ''Z'' then Some (of_char c - 55)
      else None)"

definition is_digit :: "nat \<Rightarrow> char \<Rightarrow> bool" where
  "is_digit radix c = (case digit_val c of None \<Rightarrow> False | Some d \<Rightarrow> d < radix)"

definition digits_value :: "nat \<Rightarrow> string \<Rightarrow> nat" where
  "digits_value radix ds =
     foldl (\<lambda>acc c. acc * radix + (case digit_val c of None \<Rightarrow> 0 | Some d \<Rightarrow> d)) 0 ds"

text \<open>
  \<^verbatim>\<open>parseInt\<close> on a string: leading white space, a sign, a \<^verbatim>\<open>0x\<close> prefix for radix 16,
  then the longest run of digits; \<^verbatim>\<open>NaN\<close> (\<open>None\<close>) when there is no digit.
\<close>

definition parseInt_string :: "string \<Rightarrow> int option" where
  "parseInt_string s =
     (let s1 = dropWhile is_space s;
          negative = (take 1 s1 = ''-'');
          s2 = (if take 1 s1 = ''-'' \<or> take 1 s1 = ''+'' then drop 1 s1 else s1);
          radix = (if take 2 s2 = ''0x'' \<or> take 2 s2 = ''0X'' then 16 else 10);
          s3 = (if radix = 16 then drop 2 s2 else s2);
          ds = takeWhile (is_digit radix) s3
      in if ds = [] then None
         else Some (if negative then - int (digits_value radix ds) else int (digits_value radix ds)))"

text \<open>
  \<^verbatim>\<open>parseInt\<close> on a number reads its printed form. A number of magnitude from \<open>10\<^sup>-\<^sup>6\<close>
  and below \<open>10\<^sup>2\<^sup>1\<close> is printed in plain decimal notation, which gives its integer part;
  any other number except 0 is printed with an exponent, as \<^verbatim>\<open>d.ddde+21\<close> or \<^verbatim>\<open>d.ddde-7\<close>, which
  gives its first significant digit.
\<close>

function leading_digit :: "int \<Rightarrow> int" where
  "leading_digit n = (if n < 10 then n else leading_digit (n div 10))"
  by pat_completeness auto
termination
  by (relation "measure nat") auto

function first_digit :: "rat \<Rightarrow> int" where
  "first_digit a = (if 0 < a \<and> a < 1 then first_digit (a * 10) else leading_digit \<lfloor>a\<rfloor>)"
  by pat_completeness auto
termination
proof (relation "measure (\<lambda>a. nat \<lceil>1 / a\<rceil>)")
  show "wf (measure (\<lambda>a::rat. nat \<lceil>1 / a\<rceil>))" by simp
next
  fix a :: rat
  assume a: "0 < a \<and> a < 1"
  define n where "n = \<lceil>1 / a\<rceil>"
  from a have x: "1 < 1 / a" by simp
  then have c: "2 \<le> n" unfolding n_def by linarith
  then have r: "(2::rat) \<le> of_int n" by (metis of_int_le_iff of_int_numeral)
  have "1 / a \<le> of_int n" unfolding n_def by linarith
  then have "1 / (a * 10) \<le> of_int n / 10" by simp
  also have "\<dots> \<le> of_int n - 1" using r by linarith
  also have "\<dots> = of_int (n - 1)" by simp
  finally have "\<lceil>1 / (a * 10)\<rceil> \<le> n - 1" by (simp only: ceiling_le_iff)
  with c have "nat \<lceil>1 / (a * 10)\<rceil> < nat n" by linarith
  then show "(a * 10, a) \<in> measure (\<lambda>a. nat \<lceil>1 / a\<rceil>)"
    by (simp only: n_def in_measure)
qed

definition parseInt_number :: "rat \<Rightarrow> int" where
  "parseInt_number q =
     (let a = \<bar>q\<bar>;
          n = (if 10 ^ 21 \<le> a \<or> (0 < a \<and> a < 1 / 10 ^ 6) then first_digit a else \<lfloor>a\<rfloor>)
      in if q < 0 then - n else n)"

text \<open>
  \<^verbatim>\<open>parseInt\<close> on a value converts it to a string first. An array prints its elements
  separated by commas, so the first element decides; \<^verbatim>\<open>undefined\<close>, \<^verbatim>\<open>null\<close>, booleans and
  objects print as words.
\<close>

fun parseInt :: "json option \<Rightarrow> int option" where
  "parseInt None = None"
| "parseInt (Some JNull) = None"
| "parseInt (Some (JBool b)) = None"
| "parseInt (Some (JNum q)) = Some (parseInt_number q)"
| "parseInt (Some (JStr s)) = parseInt_string s"
| "parseInt (Some (JArr [])) = None"
| "parseInt (Some (JArr (x # xs))) = parseInt (Some x)"
| "parseInt (Some (JObj ps)) = None"

text \<open>\<^verbatim>\<open>Math.min(5, Math.max(1, parseInt(parsed.priorityScore) || 3))\<close>\<close>

definition clamp_score :: "json option \<Rightarrow> int" where
  "clamp_score v =
     min 5 (max 1 (case parseInt v of None \<Rightarrow> 3 | Some n \<Rightarrow> if n = 0 then 3 else n))"

text \<open>\<^verbatim>\<open>v || d\<close>\<close>

definition or_else :: "json option \<Rightarrow> json \<Rightarrow> json" where
  "or_else v d = (case v of None \<Rightarrow> d | Some x \<Rightarrow> if truthy (Some x) then x else d)"

definition read_prop :: "json \<Rightarrow> string \<Rightarrow> json option" where
  "read_prop c k = (case get_prop c k of Inl e \<Rightarrow> None | Inr v \<Rightarrow> v)"

subsection \<open>Topic heuristics\<close>

definition toLowerCase :: "string \<Rightarrow> string" where
  "toLowerCase s = map toLowerCase_char s"

fun join :: "string \<Rightarrow> string list \<Rightarrow> string" where
  "join sep [] = []"
| "join sep [x] = x"
| "join sep (x # y # xs) = x @ sep @ join sep (y # xs)"

fun includes_str :: "string \<Rightarrow> string \<Rightarrow> bool" where
  "includes_str [] d = (d = [])"
| "includes_str (c # s) d = (take (length d) (c # s) = d \<or> includes_str s d)"

text \<open>The extension's \<^verbatim>\<open>extractBasicTopics\<close>: words of a fixed vocabulary found in the text.\<close>

definition extractBasicTopics :: "tab_input \<Rightarrow> string list" where
  "extractBasicTopics tabData =
     (let text = toLowerCase
            (title tabData @ '' '' @ metaDescription tabData @ '' '' @ join '' '' (headings tabData));
          domains = [''technology'', ''programming'', ''business'', ''science'', ''news'',
                     ''education'', ''documentation'', ''tutorial'', ''api'', ''framework'']
      in take 3 (filter (\<lambda>domain. includes_str text domain) domains))"

definition is_word_char :: "char \<Rightarrow> bool" where
  "is_word_char c =
     ((CHR ''a'' \<le> c \<and> c \<le> CHR ''z'') \<or> (CHR ''A'' \<le> c \<and> c \<le> CHR ''Z'')
      \<or> (CHR ''0'' \<le> c \<and> c \<le> CHR ''9'') \<or> c = CHR ''_'')"

text \<open>\<^verbatim>\<open>split(/\W+/)\<close>: the pieces between maximal runs of non-word characters.\<close>

fun split_W_from :: "string \<Rightarrow> bool \<Rightarrow> string \<Rightarrow> string list" where
  "split_W_from cur in_sep [] = [rev cur]"
| "split_W_from cur in_sep (c # s) =
     (if is_word_char c then split_W_from (c # cur) False s
      else if in_sep then split_W_from cur True s
      else rev cur # split_W_from [] True s)"

definition split_W :: "string \<Rightarrow> string list" where
  "split_W s = split_W_from [] False s"

text \<open>The backend's \<^verbatim>\<open>extractTopics\<close>: the first five longer words that are not stop words.\<close>

definition extractTopics :: "string \<Rightarrow> tab_input \<Rightarrow> string list" where
  "extractTopics text tab =
     (let content = toLowerCase (text @ '' '' @ title tab @ '' '' @ metaDescription tab);
          words = split_W content;
          commonWords = [''the'', ''a'', ''an'', ''and'', ''or'', ''but'', ''in'', ''on'', ''at'',
                         ''to'', ''for'', ''of'', ''with'', ''by'', ''is'', ''are'', ''was'',
                         ''were'', ''this'', ''that'', ''these'', ''those'']
      in take 5 (filter (\<lambda>word. length word > 3 \<and> word \<notin> set commonWords) words))"

section \<open>The tab analyzer\<close>

subsection \<open>Extension\<close>

text \<open>The object the extension's analyzer returns: it carries no id, title, url or error.\<close>

record analysis_ext =
  summary_ext :: json
  priorityScore_ext :: int
  priorityRationale_ext :: json
  topics_ext :: json

definition configured :: "string option \<Rightarrow> bool" where
  "configured apiKey = (case apiKey of None \<Rightarrow> False | Some k \<Rightarrow> k \<noteq> [])"

definition or_default :: "string \<Rightarrow> string \<Rightarrow> string" where
  "or_default s d = (if s = [] then d else s)"

text \<open>The \<^verbatim>\<open>catch\<close> branch.\<close>

definition degraded_ext :: "tab_input \<Rightarrow> analysis_ext" where
  "degraded_ext tabData =
     \<lparr>summary_ext = JStr (title tabData @ '' - '' @ or_default (metaDescription tabData) ''Web page content''),
      priorityScore_ext = 3,
      priorityRationale_ext = JStr ''Unable to analyze - default priority assigned'',
      topics_ext = JArr (map JStr (extractBasicTopics tabData))\<rparr>"

text \<open>The \<^verbatim>\<open>try\<close> block from the reply on; \<open>Inl\<close> is what it throws.\<close>

definition try_analyze_ext ::
  "(string \<Rightarrow> json option) \<Rightarrow> reply \<Rightarrow> tab_input \<Rightarrow> js_error + analysis_ext" where
  "try_analyze_ext json_parse r tabData =
     (case r of
        Failed msg \<Rightarrow> Inl (Error msg)
      | Content content \<Rightarrow>
          (case match_greedy CHR ''{'' CHR ''}'' content of
             None \<Rightarrow> Inl (Error ''Invalid JSON response'')
           | Some jsonMatch \<Rightarrow>
               (case json_parse jsonMatch of
                  None \<Rightarrow> Inl SyntaxError
                | Some parsed \<Rightarrow>
                    (case get_prop parsed ''summary'' of
                       Inl e \<Rightarrow> Inl e
                     | Inr s \<Rightarrow>
                         Inr \<lparr>summary_ext = or_else s (JStr (title tabData)),
                              priorityScore_ext = clamp_score (read_prop parsed ''priorityScore''),
                              priorityRationale_ext =
                                or_else (read_prop parsed ''priorityRationale'') (JStr ''Standard content''),
                              topics_ext =
                                or_else (read_prop parsed ''topics'')
                                  (JArr (map JStr (extractBasicTopics tabData)))\<rparr>))))"

definition analyzeAndPrioritizeTab_ext ::
  "(string \<Rightarrow> json option) \<Rightarrow> string option \<Rightarrow> reply \<Rightarrow> tab_input \<Rightarrow> js_error + analysis_ext" where
  "analyzeAndPrioritizeTab_ext json_parse apiKey r tabData =
     (if \<not> configured apiKey then Inl (Error ''Groq API key not configured'')
      else (case try_analyze_ext json_parse r tabData of
              Inl e \<Rightarrow> Inr (degraded_ext tabData)
            | Inr a \<Rightarrow> Inr a))"

subsection \<open>Backend\<close>

text \<open>The \<^verbatim>\<open>try\<close> block: \<open>None\<close> when it falls through or when its \<^verbatim>\<open>catch\<close> runs.\<close>

definition try_analyze_be ::
  "(string \<Rightarrow> json option) \<Rightarrow> string \<Rightarrow> tab_input \<Rightarrow> tab_summary option" where
  "try_analyze_be json_parse content tab =
     (case match_greedy CHR ''{'' CHR ''}'' content of
        None \<Rightarrow> None
      | Some jsonMatch \<Rightarrow>
          (case json_parse jsonMatch of
             None \<Rightarrow> None
           | Some parsed \<Rightarrow>
               (case get_prop parsed ''summary'' of
                  Inl e \<Rightarrow> None
                | Inr s \<Rightarrow>
                    Some \<lparr>tab_id = tab_id tab, title = title tab, url = url tab,
                          summary = or_else s (JStr (title tab)),
                          priorityScore = clamp_score (read_prop parsed ''priorityScore''),
                          priorityRationale =
                            or_else (read_prop parsed ''priorityRationale'') (JStr ''Standard content''),
                          topics =
                            or_else (read_prop parsed ''topics'')
                              (JArr (map JStr (extractTopics content tab))),
                          error = None\<rparr>)))"

text \<open>The request is made outside the \<^verbatim>\<open>try\<close>: its failure is thrown to the caller.\<close>

definition analyzeAndPrioritizeTab_be ::
  "(string \<Rightarrow> json option) \<Rightarrow> reply \<Rightarrow> tab_input \<Rightarrow> string + tab_summary" where
  "analyzeAndPrioritizeTab_be json_parse r tab =
     (case r of
        Failed msg \<Rightarrow> Inl msg
      | Content content \<Rightarrow>
          (case try_analyze_be json_parse content tab of
             Some a \<Rightarrow> Inr a
           | None \<Rightarrow>
               Inr \<lparr>tab_id = tab_id tab, title = title tab, url = url tab,
                    summary = JStr (take 200 content),
                    priorityScore = 3,
                    priorityRationale = JStr ''Unable to determine priority'',
                    topics = JArr (map JStr (extractTopics content tab)),
                    error = None\<rparr>))"

text \<open>The \<^verbatim>\<open>.catch\<close> handler of \<^verbatim>\<open>analyzeTabs\<close>.\<close>

definition degraded_be :: "tab_input \<Rightarrow> string \<Rightarrow> tab_summary" where
  "degraded_be tab message =
     \<lparr>tab_id = tab_id tab, title = title tab, url = url tab,
      summary = JStr (title tab @ '' - '' @ or_default (metaDescription tab) ''Web page content''),
      priorityScore = 3,
      priorityRationale = JStr ''Analysis unavailable'',
      topics = JArr [],
      error = Some message\<rparr>"

definition analyze_one_be ::
  "(string \<Rightarrow> json option) \<Rightarrow> (tab_input \<Rightarrow> reply) \<Rightarrow> tab_input \<Rightarrow> tab_summary" where
  "analyze_one_be json_parse provider tab =
     (case analyzeAndPrioritizeTab_be json_parse (provider tab) tab of
        Inl message \<Rightarrow> degraded_be tab message
      | Inr a \<Rightarrow> a)"

section \<open>The cluster builder\<close>

definition parseClusteringResponse ::
  "(string \<Rightarrow> json option) \<Rightarrow> (string \<Rightarrow> string option) \<Rightarrow> string \<Rightarrow> tab_summary list \<Rightarrow> json" where
  "parseClusteringResponse json_parse hostname responseText tabSummaries =
     (case match_greedy CHR ''['' CHR '']'' responseText of
        Some jsonMatch \<Rightarrow>
          (case json_parse jsonMatch of
             Some v \<Rightarrow> v
           | None \<Rightarrow> JArr (fallbackClustering_be hostname tabSummaries))
      | None \<Rightarrow>
          (case json_parse responseText of
             Some v \<Rightarrow> v
           | None \<Rightarrow> JArr (fallbackClustering_be hostname tabSummaries)))"

definition all_tabs_cluster :: "tab_summary list \<Rightarrow> json" where
  "all_tabs_cluster tabSummaries =
     json_of_cluster
       \<lparr>name = ''All Tabs'', description = ''All your open tabs'',
        tabIds = map tab_id tabSummaries,
        clusterPriority =
          (case tabSummaries of
             [] \<Rightarrow> 3
           | t # ts \<Rightarrow> of_int (score_or_3 (Some t)))\<rparr>"

definition clusterAndSortTabs_be ::
  "(string \<Rightarrow> json option) \<Rightarrow> (string \<Rightarrow> 'k::linorder) \<Rightarrow> (string \<Rightarrow> string option) \<Rightarrow> reply
     \<Rightarrow> tab_summary list \<Rightarrow> json list" where
  "clusterAndSortTabs_be json_parse collation hostname r tabSummaries =
     (if length tabSummaries < 2 then [all_tabs_cluster tabSummaries]
      else (case r of
              Failed msg \<Rightarrow> fallbackClustering_be hostname tabSummaries
            | Content clustersText \<Rightarrow>
                (case validateAndSortClusters_be collation hostname
                        (parseClusteringResponse json_parse hostname clustersText tabSummaries)
                        tabSummaries of
                   Inl e \<Rightarrow> fallbackClustering_be hostname tabSummaries
                 | Inr clusters \<Rightarrow> clusters)))"

definition clusterAndSortTabs_ext ::
  "(string \<Rightarrow> json option) \<Rightarrow> (string \<Rightarrow> 'k::linorder) \<Rightarrow> (string \<Rightarrow> string option)
     \<Rightarrow> string option \<Rightarrow> reply \<Rightarrow> tab_summary list \<Rightarrow> json list" where
  "clusterAndSortTabs_ext json_parse collation hostname apiKey r tabSummaries =
     (if \<not> configured apiKey \<or> length tabSummaries < 2
      then fallbackClustering_ext hostname tabSummaries
      else (case r of
              Failed msg \<Rightarrow> fallbackClustering_ext hostname tabSummaries
            | Content content \<Rightarrow>
                (case match_greedy CHR ''['' CHR '']'' content of
                   None \<Rightarrow> fallbackClustering_ext hostname tabSummaries
                 | Some jsonMatch \<Rightarrow>
                     (case json_parse jsonMatch of
                        None \<Rightarrow> fallbackClustering_ext hostname tabSummaries
                      | Some clusters \<Rightarrow>
                          (case validateAndSortClusters_ext collation hostname clusters tabSummaries of
                             Inl e \<Rightarrow> fallbackClustering_ext hostname tabSummaries
                           | Inr result \<Rightarrow> result)))))"

section \<open>The batch operation of the backend\<close>

record analysis_result =
  summaries :: "tab_summary list"
  clusters :: "json list"
  processed :: nat
  errors :: nat

definition has_error :: "tab_summary \<Rightarrow> bool" where
  "has_error s = (case error s of None \<Rightarrow> False | Some m \<Rightarrow> m \<noteq> [])"

definition analyzeTabs ::
  "(string \<Rightarrow> json option) \<Rightarrow> (string \<Rightarrow> 'k::linorder) \<Rightarrow> (string \<Rightarrow> string option)
     \<Rightarrow> (tab_input \<Rightarrow> reply) \<Rightarrow> (tab_summary list \<Rightarrow> reply) \<Rightarrow> tab_input list
     \<Rightarrow> analysis_result" where
  "analyzeTabs json_parse collation hostname provider cluster_provider tabs =
     (let all_summaries = map (analyze_one_be json_parse provider) tabs;
          result = clusterAndSortTabs_be json_parse collation hostname
                     (cluster_provider all_summaries)
                     all_summaries
      in \<lparr>summaries = filter (\<lambda>s. \<not> has_error s) all_summaries,
          clusters = result,
          processed = length all_summaries,
          errors = length (filter has_error all_summaries)\<rparr>)"

section \<open>Notions used in the statements\<close>

text \<open>
  Rounding to 1 decimal place, as \<^verbatim>\<open>Math.round(x * 10) / 10\<close> does
  it.
\<close>

definition round1 :: "rat \<Rightarrow> rat" where
  "round1 q = Math_round (q * 10) / 10"

text \<open>The arithmetic mean of the scores of the analyses a list of ids refers to.\<close>

definition mean_score :: "tab_summary list \<Rightarrow> json list \<Rightarrow> rat" where
  "mean_score tabs ids =
     of_int (sum_list (map (id_score (tabMap tabs)) ids)) / of_nat (length ids)"

text \<open>An object whose \<^verbatim>\<open>tabIds\<close> property is an array.\<close>

definition has_tabIds :: "json \<Rightarrow> bool" where
  "has_tabIds c = (\<exists>ps ids. c = JObj ps \<and> map_of ps ''tabIds'' = Some (JArr ids))"

text \<open>
  An object whose \<^verbatim>\<open>clusterPriority\<close> property is a number.
\<close>

definition has_priority :: "json \<Rightarrow> bool" where
  "has_priority c = (\<exists>ps q. c = JObj ps \<and> map_of ps ''clusterPriority'' = Some (JNum q))"

text \<open>The analyses no candidate cluster claimed.\<close>

definition unassigned_tabs :: "json set \<Rightarrow> tab_summary list \<Rightarrow> tab_summary list" where
  "unassigned_tabs A tabs = filter (\<lambda>tab. tab_id tab \<notin> A) tabs"

text \<open>All ids pushed so far in the loop of the fallback, cluster by cluster.\<close>

definition pushed_ids :: "(string \<times> cluster) list \<Rightarrow> json list" where
  "pushed_ids cl = concat (map (\<lambda>p. tabIds (snd p)) cl)"

text \<open>
  The ids are in non-decreasing order of score and, among equal scores, of title; every id
  refers to an analysis.
\<close>

definition score_title_ordered ::
  "(string \<Rightarrow> 'k::linorder) \<Rightarrow> tab_summary list \<Rightarrow> json list \<Rightarrow> bool" where
  "score_title_ordered collation tabs ids =
     sorted_wrt (\<lambda>i j. case (tabMap tabs i, tabMap tabs j) of
                   (Some a, Some b) \<Rightarrow>
                     priorityScore a < priorityScore b
                     \<or> (priorityScore a = priorityScore b
                         \<and> collation (title a) \<le> collation (title b))
                 | _ \<Rightarrow> False) ids"

text \<open>The ids are in non-decreasing order of score.\<close>

definition score_ordered :: "tab_summary list \<Rightarrow> json list \<Rightarrow> bool" where
  "score_ordered tabs ids = sorted (map (id_score (tabMap tabs)) ids)"

text \<open>The clusters hold every id of the analyses, and no id twice.\<close>

definition no_loss_no_duplication :: "json list \<Rightarrow> tab_summary list \<Rightarrow> bool" where
  "no_loss_no_duplication out tabs =
     (set (concat (map tabIds_of out)) = tab_id ` set tabs \<and> distinct (concat (map tabIds_of out)))"

text \<open>The priority of the cluster is the mean of its members' scores.\<close>

definition priority_is_mean :: "tab_summary list \<Rightarrow> json \<Rightarrow> bool" where
  "priority_is_mean tabs c = (clusterPriority_of c = mean_score tabs (tabIds_of c))"

text \<open>
  The priority of the cluster is the mean of its members' scores rounded to 1 decimal place.
\<close>

definition priority_is_rounded_mean :: "tab_summary list \<Rightarrow> json \<Rightarrow> bool" where
  "priority_is_rounded_mean tabs c = (clusterPriority_of c = round1 (mean_score tabs (tabIds_of c)))"

text \<open>
  The ids listed by the candidates that pass the filter (a name and an array of ids).
\<close>

definition claimed_ids :: "json list \<Rightarrow> json set" where
  "claimed_ids candidates =
     set (concat (map tabIds_of (filter (\<lambda>c. is_valid_cluster c = Inr True) candidates)))"

text \<open>
  No JSON value can be recovered from the reply: the expression matches nothing, or
  \<^verbatim>\<open>JSON.parse\<close> throws on the match.
\<close>

definition unrecoverable :: "(string \<Rightarrow> json option) \<Rightarrow> char \<Rightarrow> char \<Rightarrow> string \<Rightarrow> bool" where
  "unrecoverable json_parse l r content =
     (case match_greedy l r content of None \<Rightarrow> True | Some m \<Rightarrow> json_parse m = None)"

text \<open>
  The same for the backend's \<^verbatim>\<open>parseClusteringResponse\<close>, which
  parses the whole reply when the expression matches nothing.
\<close>

definition unrecoverable_be :: "(string \<Rightarrow> json option) \<Rightarrow> string \<Rightarrow> bool" where
  "unrecoverable_be json_parse responseText =
     (case match_greedy CHR ''['' CHR '']'' responseText of
        None \<Rightarrow> json_parse responseText = None
      | Some m \<Rightarrow> json_parse m = None)"

text \<open>The score of the analysis the backend's analyzer returns, if it returns one.\<close>

definition final_score_be :: "string + tab_summary \<Rightarrow> int option" where
  "final_score_be res = (case res of Inl message \<Rightarrow> None | Inr a \<Rightarrow> Some (priorityScore a))"

text \<open>The score of the analysis the extension's analyzer returns, if it returns one.\<close>

definition final_score_ext :: "js_error + analysis_ext \<Rightarrow> int option" where
  "final_score_ext res = (case res of Inl e \<Rightarrow> None | Inr a \<Rightarrow> Some (priorityScore_ext a))"

section \<open>Example data\<close>

text \<open>
  A fragment of the platform's URL parser, enough for the URLs below: a string without a
  scheme does not parse, and the host of \<^verbatim>\<open>scheme://host/path\<close> is
  the text up to the next \<^verbatim>\<open>/\<close>, \<^verbatim>\<open>?\<close>,
  \<^verbatim>\<open>#\<close> or \<^verbatim>\<open>:\<close>.
\<close>

definition example_hostname :: "string \<Rightarrow> string option" where
  "example_hostname u =
     (let scheme = takeWhile (\<lambda>c. c \<noteq> CHR '':'') u;
          rest = dropWhile (\<lambda>c. c \<noteq> CHR '':'') u
      in if scheme \<noteq> [] \<and> take 3 rest = ''://''
         then Some (takeWhile (\<lambda>c. c \<notin> set ''/?#:'') (drop 3 rest))
         else None)"

text \<open>
  A fragment of the platform's collation (\<^verbatim>\<open>localeCompare\<close> with the
  default locale), enough for the titles below, which are made of ASCII letters: two titles
  compare first letter by letter without regard to case, and when that does not decide, a
  lower-case letter comes before the upper-case one. So \<^verbatim>\<open>apple\<close>
  comes before \<^verbatim>\<open>Banana\<close>, and \<^verbatim>\<open>a\<close> before
  \<^verbatim>\<open>A\<close>.
\<close>

definition example_collation :: "string \<Rightarrow> string \<times> bool list" where
  "example_collation s = (toLowerCase s, map (\<lambda>c. toLowerCase_char c \<noteq> c) s)"

text \<open>An analysis with the given id, title, URL and score.\<close>

definition example_tab :: "int \<Rightarrow> string \<Rightarrow> string \<Rightarrow> int \<Rightarrow> tab_summary" where
  "example_tab i t u p =
     \<lparr>tab_id = JNum (of_int i), title = t, url = u, summary = JStr t, priorityScore = p,
      priorityRationale = JStr ''Standard content'', topics = JArr [], error = None\<rparr>"

text \<open>Three tabs on two hosts, with distinct scores.\<close>

definition example_tabs :: "tab_summary list" where
  "example_tabs =
     [example_tab 1 ''B'' ''https://news.ycombinator.com'' 2,
      example_tab 2 ''A'' ''https://news.ycombinator.com/item'' 1,
      example_tab 3 ''C'' ''https://example.com'' 4]"

text \<open>
  Candidates as a provider may return them: an unknown id, ids claimed twice, an element
  that is no object and a cluster without a name.
\<close>

definition example_candidates :: "json list" where
  "example_candidates =
     [JObj [(''name'', JStr ''Reading''), (''description'', JStr ''Things to read''),
            (''tabIds'', JArr [JNum 3, JNum 9, JNum 3])],
      JNum 5,
      JObj [(''name'', JStr ''Again''), (''tabIds'', JArr [JNum 3])],
      JObj [(''tabIds'', JArr [JNum 2])]]"

text \<open>Two tabs of one host with equal scores, and a tab whose URL does not parse.\<close>

definition low_tabs :: "tab_summary list" where
  "low_tabs =
     [example_tab 1 ''B'' ''https://example.com/b'' 1,
      example_tab 2 ''A'' ''https://example.com/a'' 1,
      example_tab 3 ''C'' ''not a url'' 2]"

text \<open>
  Two tabs with equal scores whose titles differ in the case of the first letter, and a tab
  with a lower score.
\<close>

definition mixed_case_tabs :: "tab_summary list" where
  "mixed_case_tabs =
     [example_tab 1 ''Banana'' ''https://example.com/b'' 2,
      example_tab 2 ''apple'' ''https://example.com/a'' 2,
      example_tab 3 ''Cherry'' ''https://example.com/c'' 1]"

text \<open>A candidate that claims the three of them, and what validation makes of it.\<close>

definition mixed_case_candidate :: json where
  "mixed_case_candidate =
     JObj [(''name'', JStr ''Fruit''), (''tabIds'', JArr [JNum 1, JNum 2, JNum 3])]"

definition mixed_case_validated :: "json list" where
  "mixed_case_validated =
     [JObj [(''name'', JStr ''Fruit''), (''tabIds'', JArr [JNum 3, JNum 2, JNum 1]),
            (''clusterPriority'', JNum (17 / 10))]]"

text \<open>A string in double quotes.\<close>

definition quoted :: "string \<Rightarrow> string" where
  "quoted s = CHR 0x22 # s @ [CHR 0x22]"

text \<open>
  A fragment of \<^verbatim>\<open>JSON.parse\<close>: the three JSON texts used below with
  their values; the only other text it is applied to below is a sentence, on which
  \<^verbatim>\<open>JSON.parse\<close> throws.
\<close>

definition example_parse :: "string \<Rightarrow> json option" where
  "example_parse s =
     (if s = ''{'' @ quoted ''priorityScore'' @ '': 0}'' then Some (JObj [(''priorityScore'', JNum 0)])
      else if s = ''{'' @ quoted ''priorityScore'' @ '': 7}'' then Some (JObj [(''priorityScore'', JNum 7)])
      else if s = ''[]'' then Some (JArr [])
      else None)"

text \<open>An extracted tab.\<close>

definition example_input :: tab_input where
  "example_input =
     \<lparr>tab_id = JNum 1, title = ''Rust API news'', url = ''https://example.com/rust'',
      metaDescription = [], headings = [''A tutorial''], textContent = ''Ownership and borrowing''\<rparr>"

text \<open>What validation makes of the example candidates.\<close>

definition example_validated :: "json list" where
  "example_validated =
     [JObj [(''name'', JStr ''Other''), (''description'', JStr ''Uncategorized tabs''),
            (''tabIds'', JArr [JNum 2, JNum 1]), (''clusterPriority'', JNum (3 / 2))],
      JObj [(''name'', JStr ''Reading''), (''description'', JStr ''Things to read''),
            (''tabIds'', JArr [JNum 3]), (''clusterPriority'', JNum 4)]]"

text \<open>A reply that wraps an object with the given score in prose.\<close>

definition score_text :: "string \<Rightarrow> string" where
  "score_text n = ''Here is the analysis: {'' @ quoted ''priorityScore'' @ '': '' @ n @ ''} Done.''"

text \<open>A reply that holds no JSON.\<close>

definition refusal :: string where
  "refusal = ''I cannot analyze this page.''"

text \<open>Three tabs of one host whose scores have the mean 4/3.\<close>

definition thirds_tabs :: "tab_summary list" where
  "thirds_tabs =
     [example_tab 1 ''B'' ''https://example.com/b'' 1,
      example_tab 2 ''A'' ''https://example.com/a'' 1,
      example_tab 3 ''C'' ''https://example.com/c'' 2]"

text \<open>
  The cluster synthesized for them when no candidate claims them, with a given priority.
\<close>

definition thirds_other :: "rat \<Rightarrow> json" where
  "thirds_other p =
     JObj [(''name'', JStr ''Other''), (''description'', JStr ''Uncategorized tabs''),
           (''tabIds'', JArr [JNum 2, JNum 1, JNum 3]), (''clusterPriority'', JNum p)]"

text \<open>A candidate that claims all three, without or with a priority.\<close>

definition thirds_mixed :: "rat option \<Rightarrow> json" where
  "thirds_mixed p =
     JObj ([(''name'', JStr ''Mixed''), (''tabIds'', JArr [JNum 2, JNum 1, JNum 3])]
           @ (case p of None \<Rightarrow> [] | Some q \<Rightarrow> [(''clusterPriority'', JNum q)]))"

section \<open>Lemmas\<close>

subsection \<open>Order of the clusters\<close>

lemma clusterPriority_of_json [simp]: "clusterPriority_of (json_of_cluster c) = clusterPriority c"
  by (simp add: json_of_cluster_def)

lemma tabIds_of_json [simp]: "tabIds_of (json_of_cluster c) = tabIds c"
  by (simp add: json_of_cluster_def)

lemma name_of_json [simp]: "name_of (json_of_cluster c) = Some (JStr (name c))"
  by (simp add: json_of_cluster_def)

lemma sorted_fallback_finish: "sorted (map clusterPriority_of (fallback_finish tabs cl))"
  by (simp add: fallback_finish_def o_def)

lemma sorted_validate_array_ext:
  "validate_array_ext K cs tabs = Inr out \<Longrightarrow> sorted (map clusterPriority_of out)"
  by (auto simp: validate_array_ext_def Let_def split: sum.splits prod.splits)

lemma sorted_validate_array_be:
  "validate_array_be K cs tabs = Inr out \<Longrightarrow> sorted (map clusterPriority_of out)"
  by (auto simp: validate_array_be_def Let_def split: sum.splits prod.splits)

lemma sorted_validate_ext:
  "validateAndSortClusters_ext K H c tabs = Inr out \<Longrightarrow> sorted (map clusterPriority_of out)"
  by (cases c) (auto simp: sorted_validate_array_ext fallbackClustering_ext_def sorted_fallback_finish)

lemma sorted_validate_be:
  "validateAndSortClusters_be K H c tabs = Inr out \<Longrightarrow> sorted (map clusterPriority_of out)"
  by (cases c) (auto simp: sorted_validate_array_be fallbackClustering_be_def sorted_fallback_finish)

lemma sorted_cluster_be: "sorted (map clusterPriority_of (clusterAndSortTabs_be P K H r tabs))"
  by (auto simp: clusterAndSortTabs_be_def fallbackClustering_be_def sorted_fallback_finish
      sorted_validate_be split: reply.splits sum.splits)

lemma sorted_cluster_ext: "sorted (map clusterPriority_of (clusterAndSortTabs_ext P K H k r tabs))"
  by (auto simp: clusterAndSortTabs_ext_def fallbackClustering_ext_def sorted_fallback_finish
      sorted_validate_ext split: reply.splits sum.splits option.splits)

subsection \<open>The tab map and the filter over ids\<close>

lemma tabMap_dom: "(tabMap tabs i \<noteq> None) = (i \<in> tab_id ` set tabs)"
  by (simp add: tabMap_def map_of_eq_None_iff image_image)

lemma tabMap_distinct:
  "distinct (map tab_id tabs) \<Longrightarrow> t \<in> set tabs \<Longrightarrow> tabMap tabs (tab_id t) = Some t"
  unfolding tabMap_def
  by (rule map_of_is_SomeI) (auto simp: rev_map[symmetric] o_def)

lemma filter_tabIds_kept:
  "filter_tabIds tm A ids = (kept, A') \<Longrightarrow>
     A' = A \<union> set kept \<and> distinct kept \<and> set kept = {i \<in> set ids. tm i \<noteq> None} - A"
proof (induction ids arbitrary: A kept A')
  case Nil
  then show ?case by simp
next
  case (Cons i ids)
  show ?case
  proof (cases "tm i \<noteq> None \<and> i \<notin> A")
    case True
    obtain k2 A2 where r: "filter_tabIds tm (insert i A) ids = (k2, A2)"
      by (cases "filter_tabIds tm (insert i A) ids")
    from Cons.IH[OF r] have ih: "A2 = insert i A \<union> set k2" "distinct k2"
      "set k2 = {j \<in> set ids. tm j \<noteq> None} - insert i A" by auto
    from Cons.prems True r have "kept = i # k2" "A' = A2" by auto
    with ih True show ?thesis by auto
  next
    case False
    with Cons.prems have r: "filter_tabIds tm A ids = (kept, A')" by auto
    from Cons.IH[OF r] False show ?thesis by auto
  qed
qed

lemma filter_tabIds_all:
  "distinct ids \<Longrightarrow> (\<forall>i\<in>set ids. tm i \<noteq> None) \<Longrightarrow> set ids \<inter> A = {} \<Longrightarrow>
     filter_tabIds tm A ids = (ids, A \<union> set ids)"
  by (induction ids arbitrary: A) auto

subsection \<open>One candidate cluster\<close>

lemma foldl_sum: "foldl (\<lambda>sum i. sum + f i) a xs = a + sum_list (map f xs)" for a :: int
  by (induction xs arbitrary: a) auto

lemma sum_list_sort_key: "sum_list (map f (sort_key k xs)) = sum_list (map f xs)" for f :: "'a \<Rightarrow> int"
proof -
  have "mset (map f (sort_key k xs)) = mset (map f xs)" by simp
  then show ?thesis by (metis sum_mset_sum_list)
qed

lemma process_cluster_tabIds:
  assumes "process_cluster K tm A c = (c', A')"
  shows "tabIds_of c' = sort_key (id_sort_key K tm) (fst (filter_tabIds tm A (tabIds_of c)))
       \<and> A' = snd (filter_tabIds tm A (tabIds_of c))"
proof (cases c)
  case (JObj ps)
  with assms show ?thesis
    by (auto simp: process_cluster_def Let_def update_conv' split: prod.splits)
qed (use assms in \<open>auto simp: process_cluster_def Let_def\<close>)

lemma process_cluster_props:
  assumes "process_cluster K tm A c = (c', A')"
  shows "A' = A \<union> set (tabIds_of c')" "distinct (tabIds_of c')"
    "set (tabIds_of c') = {i \<in> set (tabIds_of c). tm i \<noteq> None} - A"
    "sorted (map (id_sort_key K tm) (tabIds_of c'))"
proof -
  obtain kept A2 where f: "filter_tabIds tm A (tabIds_of c) = (kept, A2)"
    by (cases "filter_tabIds tm A (tabIds_of c)")
  from process_cluster_tabIds[OF assms] f
  have t: "tabIds_of c' = sort_key (id_sort_key K tm) kept" and a: "A' = A2" by auto
  from filter_tabIds_kept[OF f] have
    k: "A2 = A \<union> set kept" "distinct kept" "set kept = {i \<in> set (tabIds_of c). tm i \<noteq> None} - A"
    by auto
  show "A' = A \<union> set (tabIds_of c')" using t a k by simp
  show "distinct (tabIds_of c')" using t k by simp
  show "set (tabIds_of c') = {i \<in> set (tabIds_of c). tm i \<noteq> None} - A" using t k by simp
  show "sorted (map (id_sort_key K tm) (tabIds_of c'))" using t by simp
qed

lemma process_cluster_priority:
  assumes "process_cluster K (tabMap tabs) A (JObj ps) = (c', A')"
  shows "clusterPriority_of c' = round1 (mean_score tabs (tabIds_of c'))"
    and "name_of c' = map_of ps ''name''"
    and "has_tabIds c'"
  using assms
  by (auto simp: process_cluster_def Let_def update_conv' round1_def mean_score_def foldl_sum
      has_tabIds_def split: prod.splits)

lemma has_priority_set_prop: "has_priority (set_prop ''clusterPriority'' (JNum q) (JObj ps))"
  by (simp add: has_priority_def update_conv')

lemma process_cluster_has_priority:
  assumes "process_cluster K tm A (JObj ps) = (c', A')"
  shows "has_priority c'"
proof -
  from assms obtain q l where "c' = set_prop ''clusterPriority'' (JNum q) (set_prop ''tabIds'' l (JObj ps))"
    by (auto simp: process_cluster_def Let_def split: prod.splits)
  then show ?thesis using has_priority_set_prop by simp
qed

subsection \<open>All candidate clusters\<close>

lemma process_clusters_props:
  "process_clusters K tm A cs = (out, A') \<Longrightarrow>
     A' = A \<union> set (concat (map tabIds_of out))
     \<and> distinct (concat (map tabIds_of out))
     \<and> set (concat (map tabIds_of out)) \<inter> A = {}
     \<and> set (concat (map tabIds_of out)) \<subseteq> {i. tm i \<noteq> None}
     \<and> (\<forall>c\<in>set out. sorted (map (id_sort_key K tm) (tabIds_of c)))"
proof (induction cs arbitrary: A out A')
  case Nil
  then show ?case by simp
next
  case (Cons c cs)
  obtain c' A1 where p: "process_cluster K tm A c = (c', A1)"
    by (cases "process_cluster K tm A c")
  obtain r A2 where q: "process_clusters K tm A1 cs = (r, A2)"
    by (cases "process_clusters K tm A1 cs")
  from Cons.prems p q have o: "out = c' # r" "A' = A2" by auto
  note pc = process_cluster_props[OF p]
  note ih = Cons.IH[OF q]
  have 1: "A' = A \<union> set (concat (map tabIds_of out))" using o pc(1) ih by auto
  have 2: "distinct (concat (map tabIds_of out))" using o pc(1,2) ih by auto
  have 3: "set (concat (map tabIds_of out)) \<inter> A = {}" using o pc(1,3) ih by auto
  have 4: "set (concat (map tabIds_of out)) \<subseteq> {i. tm i \<noteq> None}" using o pc(3) ih by auto
  have 5: "\<forall>c\<in>set out. sorted (map (id_sort_key K tm) (tabIds_of c))" using o pc(4) ih by auto
  from 1 2 3 4 5 show ?case by blast
qed

lemma is_valid_cluster_True:
  "is_valid_cluster c = Inr True \<Longrightarrow>
     \<exists>ps ids. c = JObj ps \<and> truthy (map_of ps ''name'') \<and> map_of ps ''tabIds'' = Some (JArr ids)"
  by (cases c) (auto simp: is_valid_cluster_def split: option.splits json.splits)

lemma filter_valid_Inr:
  "filter_valid cs = Inr named \<Longrightarrow> named = filter (\<lambda>c. is_valid_cluster c = Inr True) cs"
proof (induction cs arbitrary: named)
  case Nil
  then show ?case by simp
next
  case (Cons c cs)
  then show ?case by (auto split: sum.splits if_splits)
qed

lemma filter_valid_objects:
  "filter_valid cs = Inr named \<Longrightarrow> c \<in> set named \<Longrightarrow>
     \<exists>ps ids. c = JObj ps \<and> truthy (map_of ps ''name'') \<and> map_of ps ''tabIds'' = Some (JArr ids)"
  using filter_valid_Inr is_valid_cluster_True by fastforce

lemma process_clusters_priority:
  "process_clusters K (tabMap tabs) A cs = (out, A') \<Longrightarrow> (\<forall>c\<in>set cs. \<exists>ps. c = JObj ps \<and> truthy (map_of ps ''name'')) \<Longrightarrow>
     \<forall>c\<in>set out. clusterPriority_of c = round1 (mean_score tabs (tabIds_of c))
        \<and> truthy (name_of c)
        \<and> has_tabIds c \<and> has_priority c"
proof (induction cs arbitrary: A out A')
  case Nil
  then show ?case by simp
next
  case (Cons c cs)
  obtain c' A1 where p: "process_cluster K (tabMap tabs) A c = (c', A1)"
    by (cases "process_cluster K (tabMap tabs) A c")
  obtain r A2 where q: "process_clusters K (tabMap tabs) A1 cs = (r, A2)"
    by (cases "process_clusters K (tabMap tabs) A1 cs")
  from Cons.prems p q have o: "out = c' # r" by auto
  from Cons.prems(2) obtain ps where c: "c = JObj ps" "truthy (map_of ps ''name'')" by auto
  from process_cluster_priority[OF p[unfolded c(1)]] process_cluster_has_priority[OF p[unfolded c(1)]] c(2)
  have h: "clusterPriority_of c' = round1 (mean_score tabs (tabIds_of c'))"
     "truthy (name_of c')" "has_tabIds c'" "has_priority c'"
    by auto
  from Cons.IH[OF q] Cons.prems(2) have
    "\<forall>c\<in>set r. clusterPriority_of c = round1 (mean_score tabs (tabIds_of c))
        \<and> truthy (name_of c)
        \<and> has_tabIds c \<and> has_priority c" by simp
  with h o show ?case by simp
qed

lemma concat_filter_nonempty:
  "concat (map f (filter (\<lambda>c. f c \<noteq> []) xs)) = concat (map f xs)"
  by (induction xs) auto

lemma mset_concat_sort_key:
  "mset (concat (map f (sort_key k xs))) = mset (concat (map f xs))"
proof -
  have "mset (map f (sort_key k xs)) = mset (map f xs)" by simp
  then show ?thesis by (metis mset_concat sum_mset_sum_list mset_map)
qed

subsection \<open>Validation keeps every id once\<close>

lemma validate_array_be_shape:
  assumes "validate_array_be K cs tabs = Inr out"
  obtains named processed A where
    "filter_valid cs = Inr named"
    "process_clusters K (tabMap tabs) {} named = (processed, A)"
    "out = sort_key clusterPriority_of
             (filter (\<lambda>c. length (tabIds_of c) > 0) processed @
              (if unassigned_tabs A tabs = [] then [] else [other_cluster K (unassigned_tabs A tabs)]))"
  using assms
  by (auto simp: validate_array_be_def unassigned_tabs_def Let_def split: sum.splits prod.splits if_splits)

lemma tabIds_of_other [simp]:
  "tabIds_of (other_cluster K u) = map tab_id (sort_key (by_score_then_title K) u)"
  by (simp add: other_cluster_def Let_def)

lemma distinct_map_sort_key:
  "distinct (map f (sort_key k xs)) = distinct (map f xs)"
proof -
  have "mset (map f (sort_key k xs)) = mset (map f xs)" by simp
  then show ?thesis by (rule mset_eq_imp_distinct_iff)
qed

lemma other_ids:
  "set (tabIds_of (other_cluster K (unassigned_tabs A tabs))) = tab_id ` set tabs - A"
  by (auto simp: unassigned_tabs_def)

lemma other_distinct:
  "distinct (map tab_id tabs) \<Longrightarrow> distinct (tabIds_of (other_cluster K (unassigned_tabs A tabs)))"
  by (simp add: unassigned_tabs_def distinct_map_sort_key distinct_map_filter)

lemma validate_array_be_partition:
  assumes v: "validate_array_be K cs tabs = Inr out" and d: "distinct (map tab_id tabs)"
  shows "set (concat (map tabIds_of out)) = tab_id ` set tabs"
    and "distinct (concat (map tabIds_of out))"
proof -
  from v obtain named processed A where
    n: "filter_valid cs = Inr named" and
    p: "process_clusters K (tabMap tabs) {} named = (processed, A)" and
    o: "out = sort_key clusterPriority_of
             (filter (\<lambda>c. length (tabIds_of c) > 0) processed @
              (if unassigned_tabs A tabs = [] then [] else [other_cluster K (unassigned_tabs A tabs)]))"
    by (rule validate_array_be_shape)
  let ?U = "unassigned_tabs A tabs"
  let ?P = "concat (map tabIds_of processed)"
  have dom: "{i. tabMap tabs i \<noteq> None} = tab_id ` set tabs"
    using tabMap_dom by blast
  from process_clusters_props[OF p] have
    A: "A = set ?P" and dP: "distinct ?P" and sub: "set ?P \<subseteq> tab_id ` set tabs"
    unfolding dom by simp_all
  have e: "?U = [] \<Longrightarrow> tab_id ` set tabs \<subseteq> A"
    by (auto simp: unassigned_tabs_def filter_empty_conv)
  have m: "mset (concat (map tabIds_of out)) =
        mset ?P + (if ?U = [] then {#} else mset (tabIds_of (other_cluster K ?U)))"
    unfolding o mset_concat_sort_key
    by (simp add: concat_filter_nonempty)
  let ?O = "if ?U = [] then [] else tabIds_of (other_cluster K ?U)"
  have m': "mset (concat (map tabIds_of out)) = mset (?P @ ?O)"
    using m by simp
  have s: "set (concat (map tabIds_of out)) = set (?P @ ?O)"
    using m' by (rule mset_eq_setD)
  have so: "set ?O = tab_id ` set tabs - A"
  proof (cases "?U = []")
    case True
    with e show ?thesis by auto
  next
    case False
    then show ?thesis using other_ids[where A = A and tabs = tabs and K = K] by simp
  qed
  show "set (concat (map tabIds_of out)) = tab_id ` set tabs"
    unfolding s set_append so using A sub by blast
  have dO: "distinct ?O"
    using other_distinct[OF d, where A = A and K = K] by simp
  have "distinct (?P @ ?O)"
    unfolding distinct_append so using dP dO A by blast
  then show "distinct (concat (map tabIds_of out))"
    using mset_eq_imp_distinct_iff[OF m'] by blast
qed

subsection \<open>The domain-based fallback\<close>

lemma validate_array_ext_be: "validate_array_ext K = validate_array_be K"
  by (intro ext) (simp add: validate_array_ext_def validate_array_be_def)

lemma pushed_ids_Nil: "pushed_ids [] = []"
  by (simp add: pushed_ids_def)

lemma pushed_ids_map_entry:
  "map_of cl k \<noteq> None \<Longrightarrow>
     mset (pushed_ids (AList.map_entry k (\<lambda>c. c\<lparr>tabIds := tabIds c @ [i]\<rparr>) cl))
       = mset (pushed_ids cl) + {#i#}"
  by (induction cl) (auto simp: pushed_ids_def)

lemma pushed_ids_push:
  "tabIds c0 = [] \<Longrightarrow>
     mset (pushed_ids (push_tab k i (ensure_cluster k c0 cl))) = mset (pushed_ids cl) + {#i#}"
proof -
  assume e: "tabIds c0 = []"
  have 1: "map_of (ensure_cluster k c0 cl) k \<noteq> None"
    by (cases "map_of cl k") (simp_all add: ensure_cluster_def map_add_def)
  have 2: "pushed_ids (ensure_cluster k c0 cl) = pushed_ids cl"
    using e by (simp add: ensure_cluster_def pushed_ids_def)
  show ?thesis
    unfolding push_tab_def pushed_ids_map_entry[OF 1] 2 ..
qed

lemma pushed_ids_step_be:
  "mset (pushed_ids (fallback_step_be H cl t)) = mset (pushed_ids cl) + {#tab_id t#}"
  by (simp add: fallback_step_be_def Let_def pushed_ids_push split: option.splits)

lemma pushed_ids_step_ext:
  "mset (pushed_ids (fallback_step_ext H cl t)) =
     mset (pushed_ids cl) + (if H (url t) = None then {#} else {#tab_id t#})"
  by (simp add: fallback_step_ext_def Let_def pushed_ids_push split: option.splits)

lemma pushed_ids_foldl_be:
  "mset (pushed_ids (foldl (fallback_step_be H) cl tabs)) = mset (pushed_ids cl) + mset (map tab_id tabs)"
  by (induction tabs arbitrary: cl) (simp_all add: pushed_ids_step_be)

lemma pushed_ids_foldl_ext:
  "mset (pushed_ids (foldl (fallback_step_ext H) cl tabs)) =
     mset (pushed_ids cl) + mset (map tab_id (filter (\<lambda>t. H (url t) \<noteq> None) tabs))"
  by (induction tabs arbitrary: cl) (simp_all add: pushed_ids_step_ext)

lemma tabIds_finish_cluster:
  "tabIds (fallback_finish_cluster tabs c) =
     sort_key (\<lambda>i. score_or_3 (tabMap tabs i)) (tabIds c)"
  by (simp add: fallback_finish_cluster_def Let_def)

lemma fallback_finish_ids:
  "mset (concat (map tabIds_of (fallback_finish tabs cl))) = mset (pushed_ids cl)"
proof -
  have "mset (concat (map tabIds_of (fallback_finish tabs cl))) =
        mset (concat (map (\<lambda>c. tabIds (fallback_finish_cluster tabs c))
                (filter (\<lambda>c. tabIds c \<noteq> []) (map snd cl))))"
    unfolding fallback_finish_def
    by (simp add: o_def mset_concat_sort_key[where f=tabIds])
  also have "\<dots> = mset (concat (map tabIds (filter (\<lambda>c. tabIds c \<noteq> []) (map snd cl))))"
    by (simp add: mset_concat tabIds_finish_cluster o_def)
  also have "\<dots> = mset (pushed_ids cl)"
    by (simp add: concat_filter_nonempty pushed_ids_def o_def)
  finally show ?thesis .
qed

lemma fallback_be_ids:
  "mset (concat (map tabIds_of (fallbackClustering_be H tabs))) = mset (map tab_id tabs)"
proof -
  have "pushed_ids [] = []" by (simp add: pushed_ids_def)
  then show ?thesis
    by (simp add: fallbackClustering_be_def fallback_finish_ids pushed_ids_foldl_be)
qed

lemma fallback_ext_ids:
  "mset (concat (map tabIds_of (fallbackClustering_ext H tabs))) =
     mset (map tab_id (filter (\<lambda>t. H (url t) \<noteq> None) tabs))"
proof -
  have "pushed_ids [] = []" by (simp add: pushed_ids_def)
  then show ?thesis
    by (simp add: fallbackClustering_ext_def fallback_finish_ids pushed_ids_foldl_ext)
qed

lemma fallback_finish_clusters:
  assumes "c \<in> set (fallback_finish tabs cl)"
  shows "sorted (map (\<lambda>i. score_or_3 (tabMap tabs i)) (tabIds_of c))"
    and "clusterPriority_of c =
           of_int (sum_list (map (\<lambda>i. score_or_3 (tabMap tabs i)) (tabIds_of c)))
             / of_nat (length (tabIds_of c))"
    and "tabIds_of c \<noteq> []"
proof -
  from assms obtain c0 where c: "c = json_of_cluster (fallback_finish_cluster tabs c0)"
    and n: "tabIds c0 \<noteq> []"
    by (auto simp: fallback_finish_def)
  show "sorted (map (\<lambda>i. score_or_3 (tabMap tabs i)) (tabIds_of c))"
    by (simp add: c tabIds_finish_cluster)
  show "clusterPriority_of c =
           of_int (sum_list (map (\<lambda>i. score_or_3 (tabMap tabs i)) (tabIds_of c)))
             / of_nat (length (tabIds_of c))"
    by (simp add: c fallback_finish_cluster_def Let_def foldl_sum)
  show "tabIds_of c \<noteq> []"
  proof -
    have "length (tabIds_of c) = length (tabIds c0)"
      by (simp add: c tabIds_finish_cluster)
    with n show ?thesis by auto
  qed
qed

subsection \<open>Order and priority within a validated cluster\<close>

lemma sorted_key_score_title:
  assumes "sorted (map (id_sort_key K (tabMap tabs)) ids)"
    and "\<forall>i\<in>set ids. tabMap tabs i \<noteq> None"
  shows "score_title_ordered K tabs ids"
proof -
  from assms(1) have "sorted_wrt (\<lambda>i j. id_sort_key K (tabMap tabs) i \<le> id_sort_key K (tabMap tabs) j) ids"
    by (simp add: sorted_map)
  then show ?thesis
    unfolding score_title_ordered_def
  proof (rule sorted_wrt_mono_rel[rotated])
    fix i j assume "i \<in> set ids" "j \<in> set ids"
      and le: "id_sort_key K (tabMap tabs) i \<le> id_sort_key K (tabMap tabs) j"
    with assms(2) have "tabMap tabs i \<noteq> None" "tabMap tabs j \<noteq> None" by blast+
    then obtain a b where ab: "tabMap tabs i = Some a" "tabMap tabs j = Some b" by blast
    with le show "case (tabMap tabs i, tabMap tabs j) of
                   (Some a, Some b) \<Rightarrow>
                     priorityScore a < priorityScore b
                     \<or> (priorityScore a = priorityScore b \<and> K (title a) \<le> K (title b))
                 | _ \<Rightarrow> False"
      by (auto simp: id_sort_key_def by_score_then_title_def less_eq_prod_def)
  qed
qed

lemma id_sort_key_tab:
  "distinct (map tab_id tabs) \<Longrightarrow> t \<in> set tabs \<Longrightarrow>
     id_sort_key K (tabMap tabs) (tab_id t) = by_score_then_title K t"
  by (simp add: id_sort_key_def tabMap_distinct)

lemma id_score_tab:
  "distinct (map tab_id tabs) \<Longrightarrow> t \<in> set tabs \<Longrightarrow> id_score (tabMap tabs) (tab_id t) = priorityScore t"
  by (simp add: id_score_def tabMap_distinct)

lemma other_sorted:
  assumes d: "distinct (map tab_id tabs)" and s: "set u \<subseteq> set tabs"
  shows "sorted (map (id_sort_key K (tabMap tabs)) (tabIds_of (other_cluster K u)))"
proof -
  have eq: "map (id_sort_key K (tabMap tabs) \<circ> tab_id) (sort_key (by_score_then_title K) u) =
        map (by_score_then_title K) (sort_key (by_score_then_title K) u)"
    by (rule map_cong[OF refl]) (use s in \<open>auto simp: id_sort_key_tab[OF d]\<close>)
  have "sorted (map (by_score_then_title K) (sort_key (by_score_then_title K) u))" by simp
  then show ?thesis unfolding tabIds_of_other map_map eq .
qed

lemma other_priority:
  assumes d: "distinct (map tab_id tabs)" and s: "set u \<subseteq> set tabs"
  shows "clusterPriority_of (other_cluster K u) = mean_score tabs (tabIds_of (other_cluster K u))"
proof -
  have eq: "map (id_score (tabMap tabs) \<circ> tab_id) (sort_key (by_score_then_title K) u) =
        map priorityScore (sort_key (by_score_then_title K) u)"
    by (rule map_cong[OF refl]) (use s in \<open>auto simp: id_score_tab[OF d]\<close>)
  have sum: "sum_list (map (id_score (tabMap tabs)) (tabIds_of (other_cluster K u))) =
        sum_list (map priorityScore u)"
    unfolding tabIds_of_other map_map eq by (rule sum_list_sort_key)
  have len: "length (tabIds_of (other_cluster K u)) = length u" by simp
  have cp: "clusterPriority_of (other_cluster K u) =
        of_int (sum_list (map priorityScore u)) / of_nat (length u)"
    by (simp add: other_cluster_def Let_def foldl_sum sum_list_sort_key)
  show ?thesis unfolding mean_score_def sum len cp ..
qed

lemma other_name: "name_of (other_cluster K u) = Some (JStr ''Other'')"
  by (simp add: other_cluster_def Let_def)

lemma validate_array_be_clusters:
  assumes v: "validate_array_be K cs tabs = Inr out" and d: "distinct (map tab_id tabs)"
    and c: "c \<in> set out"
  shows "score_title_ordered K tabs (tabIds_of c)"
    and "clusterPriority_of c = round1 (mean_score tabs (tabIds_of c))
         \<or> (name_of c = Some (JStr ''Other'')
            \<and> clusterPriority_of c = mean_score tabs (tabIds_of c))"
    and "tabIds_of c \<noteq> []"
    and "truthy (name_of c)"
    and "has_tabIds c"
    and "sorted (map (id_sort_key K (tabMap tabs)) (tabIds_of c))"
    and "\<forall>i\<in>set (tabIds_of c). tabMap tabs i \<noteq> None"
    and "has_priority c"
proof -
  from v obtain named processed A where
    n: "filter_valid cs = Inr named" and
    p: "process_clusters K (tabMap tabs) {} named = (processed, A)" and
    o: "out = sort_key clusterPriority_of
             (filter (\<lambda>c. length (tabIds_of c) > 0) processed @
              (if unassigned_tabs A tabs = [] then [] else [other_cluster K (unassigned_tabs A tabs)]))"
    by (rule validate_array_be_shape)
  let ?U = "unassigned_tabs A tabs"
  have U: "set ?U \<subseteq> set tabs" by (auto simp: unassigned_tabs_def)
  from c o consider (cand) "c \<in> set processed" "tabIds_of c \<noteq> []"
    | (other) "?U \<noteq> []" "c = other_cluster K ?U"
    by (auto split: if_splits)
  then have "score_title_ordered K tabs (tabIds_of c)
     \<and> (clusterPriority_of c = round1 (mean_score tabs (tabIds_of c))
         \<or> (name_of c = Some (JStr ''Other'')
            \<and> clusterPriority_of c = mean_score tabs (tabIds_of c)))
     \<and> tabIds_of c \<noteq> [] \<and> truthy (name_of c)
     \<and> has_tabIds c
     \<and> sorted (map (id_sort_key K (tabMap tabs)) (tabIds_of c))
     \<and> (\<forall>i\<in>set (tabIds_of c). tabMap tabs i \<noteq> None)
     \<and> has_priority c"
  proof cases
    case cand
    from process_clusters_props[OF p] cand(1) have
      s: "sorted (map (id_sort_key K (tabMap tabs)) (tabIds_of c))"
      and k: "\<forall>i\<in>set (tabIds_of c). tabMap tabs i \<noteq> None" by auto
    have objs: "\<forall>c\<in>set named. \<exists>ps. c = JObj ps \<and> truthy (map_of ps ''name'')"
      using filter_valid_objects[OF n] by blast
    from process_clusters_priority[OF p objs] cand(1) have
      "clusterPriority_of c = round1 (mean_score tabs (tabIds_of c))" "truthy (name_of c)"
      "has_tabIds c" "has_priority c" by auto
    with sorted_key_score_title[OF s k] cand(2) s k show ?thesis by simp
  next
    case other
    have k: "\<forall>i\<in>set (tabIds_of c). tabMap tabs i \<noteq> None"
      using U tabMap_dom[of tabs] unfolding other by fastforce
    have "length (tabIds_of c) = length ?U" by (simp add: other)
    with other(1) have ne: "tabIds_of c \<noteq> []" by auto
    have ob: "has_tabIds c" "has_priority c"
      by (simp_all add: other other_cluster_def Let_def json_of_cluster_def has_tabIds_def
          has_priority_def)
    note os = other_sorted[OF d U, where K = K]
    from sorted_key_score_title[OF os k[unfolded other]]
      other_priority[OF d U, where K = K] other_name[where K = K and u = "?U"] ne ob os k
    show ?thesis by (simp add: other)
  qed
  then show "score_title_ordered K tabs (tabIds_of c)"
    and "clusterPriority_of c = round1 (mean_score tabs (tabIds_of c))
         \<or> (name_of c = Some (JStr ''Other'')
            \<and> clusterPriority_of c = mean_score tabs (tabIds_of c))"
    and "tabIds_of c \<noteq> []"
    and "truthy (name_of c)"
    and "has_tabIds c"
    and "sorted (map (id_sort_key K (tabMap tabs)) (tabIds_of c))"
    and "\<forall>i\<in>set (tabIds_of c). tabMap tabs i \<noteq> None"
    and "has_priority c"
    by blast+
qed

subsection \<open>Every id once, on every path\<close>

lemma mset_partition:
  assumes "mset (concat (map tabIds_of out)) = mset (map tab_id tabs)" "distinct (map tab_id tabs)"
  shows "no_loss_no_duplication out tabs"
proof -
  have "set (concat (map tabIds_of out)) = set (map tab_id tabs)"
    using assms(1) by (rule mset_eq_setD)
  moreover have "distinct (concat (map tabIds_of out))"
    using mset_eq_imp_distinct_iff[OF assms(1)] assms(2) by blast
  ultimately show ?thesis by (simp add: no_loss_no_duplication_def)
qed

lemma fallback_be_partition:
  "distinct (map tab_id tabs) \<Longrightarrow> no_loss_no_duplication (fallbackClustering_be H tabs) tabs"
  using fallback_be_ids by (rule mset_partition)

lemma fallback_ext_partition:
  assumes "distinct (map tab_id tabs)"
  shows "no_loss_no_duplication (fallbackClustering_ext H tabs) (filter (\<lambda>t. H (url t) \<noteq> None) tabs)"
  using fallback_ext_ids
proof (rule mset_partition)
  show "distinct (map tab_id (filter (\<lambda>t. H (url t) \<noteq> None) tabs))"
    using assms by (rule distinct_map_filter)
qed

lemma filter_all_parse: "\<forall>t\<in>set tabs. H (url t) \<noteq> None \<Longrightarrow> filter (\<lambda>t. H (url t) \<noteq> None) tabs = tabs"
  by (induction tabs) auto

lemma validate_be_partition:
  assumes "validateAndSortClusters_be K H c tabs = Inr out" "distinct (map tab_id tabs)"
  shows "no_loss_no_duplication out tabs"
proof (cases "\<exists>cs. c = JArr cs")
  case True
  then obtain cs where c: "c = JArr cs" by blast
  with assms(1) have "validate_array_be K cs tabs = Inr out" by simp
  from validate_array_be_partition[OF this assms(2)] show ?thesis
    by (simp add: no_loss_no_duplication_def)
next
  case False
  then have "validateAndSortClusters_be K H c tabs = Inr (fallbackClustering_be H tabs)"
    by (cases c) auto
  with assms(1) have "out = fallbackClustering_be H tabs" by simp
  then show ?thesis using fallback_be_partition[OF assms(2)] by simp
qed

lemma validate_ext_array_partition:
  assumes "validateAndSortClusters_ext K H (JArr cs) tabs = Inr out" "distinct (map tab_id tabs)"
  shows "no_loss_no_duplication out tabs"
proof -
  from assms(1) have "validate_array_be K cs tabs = Inr out" by (simp add: validate_array_ext_be)
  from validate_array_be_partition[OF this assms(2)] show ?thesis
    by (simp add: no_loss_no_duplication_def)
qed

lemma validate_ext_partition:
  assumes "validateAndSortClusters_ext K H c tabs = Inr out" "distinct (map tab_id tabs)"
    and "\<forall>t\<in>set tabs. H (url t) \<noteq> None"
  shows "no_loss_no_duplication out tabs"
proof (cases "\<exists>cs. c = JArr cs")
  case True
  then obtain cs where c: "c = JArr cs" by blast
  show ?thesis using validate_ext_array_partition[OF assms(1)[unfolded c] assms(2)] .
next
  case False
  then have "validateAndSortClusters_ext K H c tabs = Inr (fallbackClustering_ext H tabs)"
    by (cases c) auto
  with assms(1) have "out = fallbackClustering_ext H tabs" by simp
  then show ?thesis using fallback_ext_partition[OF assms(2), of H] filter_all_parse[OF assms(3)] by simp
qed

lemma all_tabs_partition:
  "distinct (map tab_id tabs) \<Longrightarrow> no_loss_no_duplication [all_tabs_cluster tabs] tabs"
  by (simp add: no_loss_no_duplication_def all_tabs_cluster_def)

lemma cluster_be_partition:
  assumes d: "distinct (map tab_id tabs)"
  shows "no_loss_no_duplication (clusterAndSortTabs_be P K H r tabs) tabs"
proof (cases "length tabs < 2")
  case True
  then show ?thesis using all_tabs_partition[OF d] by (simp add: clusterAndSortTabs_be_def)
next
  case False
  show ?thesis
  proof (cases r)
    case (Failed msg)
    with False show ?thesis using fallback_be_partition[OF d] by (simp add: clusterAndSortTabs_be_def)
  next
    case (Content body)
    show ?thesis
    proof (cases "validateAndSortClusters_be K H (parseClusteringResponse P H body tabs) tabs")
      case (Inl e)
      with False Content show ?thesis
        using fallback_be_partition[OF d] by (simp add: clusterAndSortTabs_be_def)
    next
      case (Inr out)
      with False Content show ?thesis
        using validate_be_partition[OF Inr d] by (simp add: clusterAndSortTabs_be_def)
    qed
  qed
qed

lemma cluster_ext_cases:
  "clusterAndSortTabs_ext P K H k r tabs = fallbackClustering_ext H tabs
   \<or> (\<exists>c. validateAndSortClusters_ext K H c tabs = Inr (clusterAndSortTabs_ext P K H k r tabs))"
  by (auto simp: clusterAndSortTabs_ext_def split: reply.splits option.splits sum.splits)

lemma cluster_be_cases:
  "clusterAndSortTabs_be P K H r tabs = fallbackClustering_be H tabs
   \<or> (length tabs < 2 \<and> clusterAndSortTabs_be P K H r tabs = [all_tabs_cluster tabs])
   \<or> (\<exists>c. validateAndSortClusters_be K H c tabs = Inr (clusterAndSortTabs_be P K H r tabs))"
  by (auto simp: clusterAndSortTabs_be_def split: reply.splits option.splits sum.splits)

lemma cluster_ext_partition:
  assumes d: "distinct (map tab_id tabs)" and u: "\<forall>t\<in>set tabs. H (url t) \<noteq> None"
  shows "no_loss_no_duplication (clusterAndSortTabs_ext P K H k r tabs) tabs"
  using cluster_ext_cases[of P K H k r tabs]
proof
  assume "clusterAndSortTabs_ext P K H k r tabs = fallbackClustering_ext H tabs"
  then show ?thesis using fallback_ext_partition[OF d, of H] filter_all_parse[OF u] by simp
next
  assume "\<exists>c. validateAndSortClusters_ext K H c tabs = Inr (clusterAndSortTabs_ext P K H k r tabs)"
  then obtain c where "validateAndSortClusters_ext K H c tabs = Inr (clusterAndSortTabs_ext P K H k r tabs)" ..
  then show ?thesis using d u by (rule validate_ext_partition)
qed

subsection \<open>Order and priority on every path\<close>

lemma tabMap_SomeD: "tabMap tabs i = Some t \<Longrightarrow> t \<in> set tabs \<and> tab_id t = i"
  unfolding tabMap_def by (drule map_of_SomeD) auto

lemma score_or_3_id_score:
  assumes "\<forall>t\<in>set tabs. priorityScore t \<noteq> 0" "i \<in> tab_id ` set tabs"
  shows "score_or_3 (tabMap tabs i) = id_score (tabMap tabs) i"
proof -
  from assms(2) have "tabMap tabs i \<noteq> None" by (simp only: tabMap_dom)
  then obtain t where t: "tabMap tabs i = Some t" by blast
  with tabMap_SomeD[OF t] assms(1) show ?thesis
    by (simp add: score_or_3_def id_score_def)
qed

lemma fallback_finish_known:
  assumes c: "c \<in> set (fallback_finish tabs cl)" and k: "set (pushed_ids cl) \<subseteq> tab_id ` set tabs"
  shows "set (tabIds_of c) \<subseteq> tab_id ` set tabs"
proof -
  have "set (concat (map tabIds_of (fallback_finish tabs cl))) = set (pushed_ids cl)"
    using fallback_finish_ids by (rule mset_eq_setD)
  with c k show ?thesis by auto
qed

lemma pushed_ids_be_known: "set (pushed_ids (foldl (fallback_step_be H) [] tabs)) \<subseteq> tab_id ` set tabs"
proof -
  have "mset (pushed_ids (foldl (fallback_step_be H) [] tabs)) = mset (map tab_id tabs)"
    by (simp add: pushed_ids_foldl_be pushed_ids_Nil)
  from mset_eq_setD[OF this] show ?thesis by simp
qed

lemma pushed_ids_ext_known: "set (pushed_ids (foldl (fallback_step_ext H) [] tabs)) \<subseteq> tab_id ` set tabs"
proof -
  have "mset (pushed_ids (foldl (fallback_step_ext H) [] tabs)) =
        mset (map tab_id (filter (\<lambda>t. H (url t) \<noteq> None) tabs))"
    by (simp add: pushed_ids_foldl_ext pushed_ids_Nil)
  from mset_eq_setD[OF this] show ?thesis by auto
qed

lemma fallback_finish_by_score:
  assumes c: "c \<in> set (fallback_finish tabs cl)" and k: "set (pushed_ids cl) \<subseteq> tab_id ` set tabs"
    and z: "\<forall>t\<in>set tabs. priorityScore t \<noteq> 0"
  shows "score_ordered tabs (tabIds_of c)" and "priority_is_mean tabs c"
proof -
  have eq: "map (\<lambda>i. score_or_3 (tabMap tabs i)) (tabIds_of c) = map (id_score (tabMap tabs)) (tabIds_of c)"
    by (rule map_cong[OF refl]) (use fallback_finish_known[OF c k] score_or_3_id_score[OF z] in blast)
  from fallback_finish_clusters(1)[OF c] show "score_ordered tabs (tabIds_of c)"
    unfolding score_ordered_def eq .
  from fallback_finish_clusters(2)[OF c] show "priority_is_mean tabs c"
    unfolding priority_is_mean_def mean_score_def eq .
qed

lemma fallback_be_by_score:
  assumes "c \<in> set (fallbackClustering_be H tabs)" "\<forall>t\<in>set tabs. priorityScore t \<noteq> 0"
  shows "score_ordered tabs (tabIds_of c)" and "priority_is_mean tabs c"
  using fallback_finish_by_score[OF assms(1)[unfolded fallbackClustering_be_def] pushed_ids_be_known assms(2)]
  by blast+

lemma fallback_ext_by_score:
  assumes "c \<in> set (fallbackClustering_ext H tabs)" "\<forall>t\<in>set tabs. priorityScore t \<noteq> 0"
  shows "score_ordered tabs (tabIds_of c)" and "priority_is_mean tabs c"
  using fallback_finish_by_score[OF assms(1)[unfolded fallbackClustering_ext_def] pushed_ids_ext_known assms(2)]
  by blast+

lemma sorted_key_score:
  assumes "sorted (map (id_sort_key K (tabMap tabs)) ids)" "\<forall>i\<in>set ids. tabMap tabs i \<noteq> None"
  shows "score_ordered tabs ids"
proof -
  from assms(1) have "sorted_wrt (\<lambda>i j. id_sort_key K (tabMap tabs) i \<le> id_sort_key K (tabMap tabs) j) ids"
    by (simp add: sorted_map)
  then have "sorted_wrt (\<lambda>i j. id_score (tabMap tabs) i \<le> id_score (tabMap tabs) j) ids"
  proof (rule sorted_wrt_mono_rel[rotated])
    fix i j assume "i \<in> set ids" "j \<in> set ids"
      and le: "id_sort_key K (tabMap tabs) i \<le> id_sort_key K (tabMap tabs) j"
    with assms(2) have "tabMap tabs i \<noteq> None" "tabMap tabs j \<noteq> None" by blast+
    then obtain a b where ab: "tabMap tabs i = Some a" "tabMap tabs j = Some b" by blast
    with le show "id_score (tabMap tabs) i \<le> id_score (tabMap tabs) j"
      by (auto simp: id_sort_key_def id_score_def by_score_then_title_def less_eq_prod_def)
  qed
  then show ?thesis by (simp add: score_ordered_def sorted_map)
qed

lemma validate_array_be_by_score:
  assumes "validate_array_be K cs tabs = Inr out" "distinct (map tab_id tabs)" "c \<in> set out"
  shows "score_ordered tabs (tabIds_of c)"
    and "priority_is_rounded_mean tabs c \<or> priority_is_mean tabs c"
  using validate_array_be_clusters(2,6,7)[OF assms] sorted_key_score
  by (auto simp: priority_is_rounded_mean_def priority_is_mean_def)

lemma all_tabs_ordered:
  assumes "length tabs < 2"
  shows "score_ordered tabs (tabIds_of (all_tabs_cluster tabs))"
proof -
  from assms have "length (map (id_score (tabMap tabs)) (map tab_id tabs)) \<le> 1" by simp
  then have "sorted (map (id_score (tabMap tabs)) (map tab_id tabs))"
    by (rule sorted01)
  then show ?thesis by (simp add: score_ordered_def all_tabs_cluster_def)
qed

lemma all_tabs_by_score:
  assumes "length tabs < 2" "tabs \<noteq> []" "\<forall>t\<in>set tabs. priorityScore t \<noteq> 0"
  shows "priority_is_mean tabs (all_tabs_cluster tabs)"
proof -
  from assms(1,2) obtain t where t: "tabs = [t]" by (cases tabs) (auto simp: Suc_lessI)
  have "tabMap tabs (tab_id t) = Some t" by (simp add: t tabMap_def)
  with assms(3) show "priority_is_mean tabs (all_tabs_cluster tabs)"
    by (simp add: t priority_is_mean_def all_tabs_cluster_def mean_score_def id_score_def score_or_3_def)
qed

lemma validate_be_by_score:
  assumes v: "validateAndSortClusters_be K H c0 tabs = Inr out" and d: "distinct (map tab_id tabs)"
    and z: "\<forall>t\<in>set tabs. priorityScore t \<noteq> 0" and c: "c \<in> set out"
  shows "score_ordered tabs (tabIds_of c)"
    and "priority_is_rounded_mean tabs c \<or> priority_is_mean tabs c"
proof -
  have "score_ordered tabs (tabIds_of c) \<and> (priority_is_rounded_mean tabs c \<or> priority_is_mean tabs c)"
  proof (cases "\<exists>cs. c0 = JArr cs")
    case True
    then obtain cs where "c0 = JArr cs" by blast
    with v have "validate_array_be K cs tabs = Inr out" by simp
    from validate_array_be_by_score[OF this d c] show ?thesis by blast
  next
    case False
    then have "validateAndSortClusters_be K H c0 tabs = Inr (fallbackClustering_be H tabs)"
      by (cases c0) auto
    with v c have "c \<in> set (fallbackClustering_be H tabs)" by simp
    from fallback_be_by_score[OF this z] show ?thesis by blast
  qed
  then show "score_ordered tabs (tabIds_of c)"
    and "priority_is_rounded_mean tabs c \<or> priority_is_mean tabs c" by blast+
qed

lemma validate_ext_by_score:
  assumes v: "validateAndSortClusters_ext K H c0 tabs = Inr out" and d: "distinct (map tab_id tabs)"
    and z: "\<forall>t\<in>set tabs. priorityScore t \<noteq> 0" and c: "c \<in> set out"
  shows "score_ordered tabs (tabIds_of c)"
    and "priority_is_rounded_mean tabs c \<or> priority_is_mean tabs c"
proof -
  have "score_ordered tabs (tabIds_of c) \<and> (priority_is_rounded_mean tabs c \<or> priority_is_mean tabs c)"
  proof (cases "\<exists>cs. c0 = JArr cs")
    case True
    then obtain cs where "c0 = JArr cs" by blast
    with v have "validate_array_be K cs tabs = Inr out" by (simp add: validate_array_ext_be)
    from validate_array_be_by_score[OF this d c] show ?thesis by blast
  next
    case False
    then have "validateAndSortClusters_ext K H c0 tabs = Inr (fallbackClustering_ext H tabs)"
      by (cases c0) auto
    with v c have "c \<in> set (fallbackClustering_ext H tabs)" by simp
    from fallback_ext_by_score[OF this z] show ?thesis by blast
  qed
  then show "score_ordered tabs (tabIds_of c)"
    and "priority_is_rounded_mean tabs c \<or> priority_is_mean tabs c" by blast+
qed

lemma cluster_be_ordered:
  assumes d: "distinct (map tab_id tabs)" and z: "\<forall>t\<in>set tabs. priorityScore t \<noteq> 0"
    and c: "c \<in> set (clusterAndSortTabs_be P K H r tabs)"
  shows "score_ordered tabs (tabIds_of c)"
  using cluster_be_cases[of P K H r tabs]
proof (elim disjE conjE exE)
  assume "clusterAndSortTabs_be P K H r tabs = fallbackClustering_be H tabs"
  with c have "c \<in> set (fallbackClustering_be H tabs)" by simp
  from fallback_be_by_score(1)[OF this z] show ?thesis .
next
  assume l: "length tabs < 2" and "clusterAndSortTabs_be P K H r tabs = [all_tabs_cluster tabs]"
  with c have "c = all_tabs_cluster tabs" by simp
  with all_tabs_ordered[OF l] show ?thesis by simp
next
  fix c0 assume "validateAndSortClusters_be K H c0 tabs = Inr (clusterAndSortTabs_be P K H r tabs)"
  from validate_be_by_score(1)[OF this d z c] show ?thesis .
qed

lemma cluster_be_priority:
  assumes d: "distinct (map tab_id tabs)" and z: "\<forall>t\<in>set tabs. priorityScore t \<noteq> 0"
    and n: "tabs \<noteq> []" and c: "c \<in> set (clusterAndSortTabs_be P K H r tabs)"
  shows "priority_is_rounded_mean tabs c \<or> priority_is_mean tabs c"
  using cluster_be_cases[of P K H r tabs]
proof (elim disjE conjE exE)
  assume "clusterAndSortTabs_be P K H r tabs = fallbackClustering_be H tabs"
  with c have "c \<in> set (fallbackClustering_be H tabs)" by simp
  from fallback_be_by_score(2)[OF this z] show ?thesis by simp
next
  assume l: "length tabs < 2" and "clusterAndSortTabs_be P K H r tabs = [all_tabs_cluster tabs]"
  with c have "c = all_tabs_cluster tabs" by simp
  with all_tabs_by_score[OF l n z] show ?thesis by simp
next
  fix c0 assume "validateAndSortClusters_be K H c0 tabs = Inr (clusterAndSortTabs_be P K H r tabs)"
  from validate_be_by_score(2)[OF this d z c] show ?thesis .
qed

lemma cluster_ext_by_score:
  assumes d: "distinct (map tab_id tabs)" and z: "\<forall>t\<in>set tabs. priorityScore t \<noteq> 0"
    and c: "c \<in> set (clusterAndSortTabs_ext P K H k r tabs)"
  shows "score_ordered tabs (tabIds_of c)"
    and "priority_is_rounded_mean tabs c \<or> priority_is_mean tabs c"
proof -
  from cluster_ext_cases[of P K H k r tabs]
  have "score_ordered tabs (tabIds_of c) \<and> (priority_is_rounded_mean tabs c \<or> priority_is_mean tabs c)"
  proof (elim disjE exE)
    assume "clusterAndSortTabs_ext P K H k r tabs = fallbackClustering_ext H tabs"
    with c have "c \<in> set (fallbackClustering_ext H tabs)" by simp
    from fallback_ext_by_score[OF this z] show ?thesis by blast
  next
    fix c0 assume "validateAndSortClusters_ext K H c0 tabs = Inr (clusterAndSortTabs_ext P K H k r tabs)"
    from validate_ext_by_score[OF this d z c] show ?thesis by blast
  qed
  then show "score_ordered tabs (tabIds_of c)"
    and "priority_is_rounded_mean tabs c \<or> priority_is_mean tabs c" by blast+
qed

subsection \<open>Clusters built from candidates, and validation of the fallback\<close>

lemma process_clusters_claimed:
  "process_clusters K tm A cs = (out, A') \<Longrightarrow>
     A' = A \<union> {i \<in> set (concat (map tabIds_of cs)). tm i \<noteq> None}
     \<and> (\<forall>c\<in>set out. set (tabIds_of c) \<subseteq> set (concat (map tabIds_of cs)))"
proof (induction cs arbitrary: A out A')
  case Nil
  then show ?case by simp
next
  case (Cons c cs)
  obtain c' A1 where p: "process_cluster K tm A c = (c', A1)"
    by (cases "process_cluster K tm A c")
  obtain r A2 where q: "process_clusters K tm A1 cs = (r, A2)"
    by (cases "process_clusters K tm A1 cs")
  from Cons.prems p q have o: "out = c' # r" "A' = A2" by auto
  note pc = process_cluster_props[OF p]
  note ih = Cons.IH[OF q]
  have 1: "A' = A \<union> {i \<in> set (concat (map tabIds_of (c # cs))). tm i \<noteq> None}"
    using o pc(1,3) ih by auto
  have 2: "\<forall>c'\<in>set out. set (tabIds_of c') \<subseteq> set (concat (map tabIds_of (c # cs)))"
    using o pc(3) ih by auto
  from 1 2 show ?case by blast
qed

lemma validate_array_be_candidates:
  assumes v: "validate_array_be K cs tabs = Inr out" and c: "c \<in> set out"
  shows "set (tabIds_of c) \<inter> claimed_ids cs \<noteq> {}
           \<Longrightarrow> clusterPriority_of c = round1 (mean_score tabs (tabIds_of c))"
    and "set (tabIds_of c) \<inter> claimed_ids cs = {} \<Longrightarrow> name_of c = Some (JStr ''Other'')"
proof -
  from v obtain named processed A where
    n: "filter_valid cs = Inr named" and
    p: "process_clusters K (tabMap tabs) {} named = (processed, A)" and
    o: "out = sort_key clusterPriority_of
             (filter (\<lambda>c. length (tabIds_of c) > 0) processed @
              (if unassigned_tabs A tabs = [] then [] else [other_cluster K (unassigned_tabs A tabs)]))"
    by (rule validate_array_be_shape)
  let ?U = "unassigned_tabs A tabs"
  have cl: "claimed_ids cs = set (concat (map tabIds_of named))"
    unfolding claimed_ids_def filter_valid_Inr[OF n] ..
  from process_clusters_claimed[OF p] have
    A: "A = {i \<in> claimed_ids cs. tabMap tabs i \<noteq> None}"
    and sub: "\<forall>c\<in>set processed. set (tabIds_of c) \<subseteq> claimed_ids cs"
    unfolding cl by auto
  from c o consider (cand) "c \<in> set processed" "tabIds_of c \<noteq> []"
    | (other) "?U \<noteq> []" "c = other_cluster K ?U"
    by (auto split: if_splits)
  then have "(set (tabIds_of c) \<inter> claimed_ids cs \<noteq> {}
           \<longrightarrow> clusterPriority_of c = round1 (mean_score tabs (tabIds_of c)))
     \<and> (set (tabIds_of c) \<inter> claimed_ids cs = {} \<longrightarrow> name_of c = Some (JStr ''Other''))"
  proof cases
    case cand
    have objs: "\<forall>c\<in>set named. \<exists>ps. c = JObj ps \<and> truthy (map_of ps ''name'')"
      using filter_valid_objects[OF n] by blast
    from process_clusters_priority[OF p objs] cand(1) have
      r: "clusterPriority_of c = round1 (mean_score tabs (tabIds_of c))" by auto
    from cand(2) obtain i where i: "i \<in> set (tabIds_of c)" by (cases "tabIds_of c") auto
    with sub cand(1) have "i \<in> claimed_ids cs" by blast
    with i have "set (tabIds_of c) \<inter> claimed_ids cs \<noteq> {}" by blast
    with r show ?thesis by simp
  next
    case other
    have "set (tabIds_of c) = tab_id ` set tabs - A"
      unfolding other(2) by (rule other_ids)
    moreover have "\<forall>i\<in>tab_id ` set tabs. tabMap tabs i \<noteq> None"
      using tabMap_dom[of tabs] by blast
    ultimately have "set (tabIds_of c) \<inter> claimed_ids cs = {}" unfolding A by blast
    with other_name[where K = K and u = "?U"] other(2) show ?thesis by simp
  qed
  then show "set (tabIds_of c) \<inter> claimed_ids cs \<noteq> {}
           \<Longrightarrow> clusterPriority_of c = round1 (mean_score tabs (tabIds_of c))"
    and "set (tabIds_of c) \<inter> claimed_ids cs = {} \<Longrightarrow> name_of c = Some (JStr ''Other'')"
    by blast+
qed

lemma is_valid_cluster_total: "c \<noteq> JNull \<Longrightarrow> \<exists>b. is_valid_cluster c = Inr b"
  by (cases c) (auto simp: is_valid_cluster_def)

lemma filter_valid_total:
  "\<forall>c\<in>set cs. c \<noteq> JNull \<Longrightarrow> \<exists>named. filter_valid cs = Inr named"
proof (induction cs)
  case Nil
  then show ?case by simp
next
  case (Cons c cs)
  then obtain named where n: "filter_valid cs = Inr named" by auto
  from Cons.prems is_valid_cluster_total[of c] obtain b where "is_valid_cluster c = Inr b" by auto
  with n show ?case by simp
qed

lemma validate_array_be_total:
  "\<forall>c\<in>set cs. c \<noteq> JNull \<Longrightarrow> \<exists>out. validate_array_be K cs tabs = Inr out"
proof -
  assume "\<forall>c\<in>set cs. c \<noteq> JNull"
  from filter_valid_total[OF this] obtain named where "filter_valid cs = Inr named" ..
  then show ?thesis
    by (simp add: validate_array_be_def Let_def split: prod.splits)
qed

lemma fallback_finish_objects: "\<forall>c\<in>set (fallback_finish tabs cl). c \<noteq> JNull"
  by (auto simp: fallback_finish_def json_of_cluster_def)

lemma validate_fallback_be_total:
  "\<exists>out. validateAndSortClusters_be K H (JArr (fallbackClustering_be H tabs)) tabs' = Inr out"
  using validate_array_be_total[OF fallback_finish_objects]
  by (simp add: fallbackClustering_be_def)

subsection \<open>Scores and replies without JSON\<close>

lemma clamp_score_range: "1 \<le> clamp_score v \<and> clamp_score v \<le> 5"
  by (simp add: clamp_score_def split: option.splits)

lemma try_analyze_be_score:
  "try_analyze_be P c tab = Some a \<Longrightarrow> 1 \<le> priorityScore a \<and> priorityScore a \<le> 5"
  by (auto simp: try_analyze_be_def clamp_score_range split: option.splits sum.splits)

lemma analyze_be_score:
  "analyzeAndPrioritizeTab_be P r tab = Inr a \<Longrightarrow> 1 \<le> priorityScore a \<and> priorityScore a \<le> 5"
  by (auto simp: analyzeAndPrioritizeTab_be_def try_analyze_be_score split: reply.splits option.splits)

lemma analyze_one_be_score:
  "1 \<le> priorityScore (analyze_one_be P provider tab) \<and> priorityScore (analyze_one_be P provider tab) \<le> 5"
  by (auto simp: analyze_one_be_def degraded_be_def analyze_be_score split: sum.splits)

lemma try_analyze_ext_score:
  "try_analyze_ext P r tab = Inr a \<Longrightarrow> 1 \<le> priorityScore_ext a \<and> priorityScore_ext a \<le> 5"
  by (auto simp: try_analyze_ext_def clamp_score_range split: reply.splits option.splits sum.splits)

lemma analyze_ext_score:
  "analyzeAndPrioritizeTab_ext P k r tab = Inr a \<Longrightarrow> 1 \<le> priorityScore_ext a \<and> priorityScore_ext a \<le> 5"
  by (auto simp: analyzeAndPrioritizeTab_ext_def degraded_ext_def try_analyze_ext_score
      split: if_splits sum.splits)

lemma try_analyze_be_unrecoverable:
  "unrecoverable P CHR ''{'' CHR ''}'' c \<Longrightarrow> try_analyze_be P c tab = None"
  by (auto simp: unrecoverable_def try_analyze_be_def split: option.splits)

lemma try_analyze_ext_unrecoverable:
  "unrecoverable P CHR ''{'' CHR ''}'' c \<Longrightarrow> \<exists>e. try_analyze_ext P (Content c) tab = Inl e"
  by (auto simp: unrecoverable_def try_analyze_ext_def split: option.splits)

lemma analyze_ext_degraded:
  assumes "configured k"
  shows "analyzeAndPrioritizeTab_ext P k (Failed msg) tab = Inr (degraded_ext tab)"
    and "unrecoverable P CHR ''{'' CHR ''}'' c \<Longrightarrow>
           analyzeAndPrioritizeTab_ext P k (Content c) tab = Inr (degraded_ext tab)"
  using assms try_analyze_ext_unrecoverable[of P c tab]
  by (auto simp: analyzeAndPrioritizeTab_ext_def try_analyze_ext_def)

lemma cluster_ext_unrecoverable:
  "unrecoverable P CHR ''['' CHR '']'' c \<Longrightarrow>
     clusterAndSortTabs_ext P K H k (Content c) tabs = fallbackClustering_ext H tabs"
  by (auto simp: unrecoverable_def clusterAndSortTabs_ext_def split: option.splits)

lemma cluster_ext_failed:
  "clusterAndSortTabs_ext P K H k (Failed msg) tabs = fallbackClustering_ext H tabs"
  by (simp add: clusterAndSortTabs_ext_def)

lemma parse_be_unrecoverable:
  "unrecoverable_be P c \<Longrightarrow> parseClusteringResponse P H c tabs = JArr (fallbackClustering_be H tabs)"
  by (auto simp: unrecoverable_be_def parseClusteringResponse_def split: option.splits)

lemma all_tabs_fields:
  "name_of (all_tabs_cluster tabs) = Some (JStr ''All Tabs'')"
  "tabIds_of (all_tabs_cluster tabs) = map tab_id tabs"
  "clusterPriority_of (all_tabs_cluster tabs) =
     (case tabs of [] \<Rightarrow> 3 | t # ts \<Rightarrow> if priorityScore t = 0 then 3 else of_int (priorityScore t))"
  by (simp_all add: all_tabs_cluster_def score_or_3_def split: list.splits)

lemma fallback_ext_Nil: "fallbackClustering_ext H [] = []"
  by (simp add: fallbackClustering_ext_def fallback_finish_def)

lemma fallback_ext_single_unparsed:
  "H (url t) = None \<Longrightarrow> fallbackClustering_ext H [t] = []"
  by (simp add: fallbackClustering_ext_def fallback_finish_def fallback_step_ext_def)

lemma fallback_ext_single:
  "H (url t) = Some h \<Longrightarrow>
     fallbackClustering_ext H [t] =
       [json_of_cluster
          \<lparr>name = capitalize (split_dot_first (replace_first ''www.'' [] h)),
           description = ''Pages from '' @ replace_first ''www.'' [] h,
           tabIds = [tab_id t],
           clusterPriority = (if priorityScore t = 0 then 3 else of_int (priorityScore t))\<rparr>]"
  by (simp add: fallbackClustering_ext_def fallback_finish_def fallback_step_ext_def Let_def
      ensure_cluster_def push_tab_def fallback_finish_cluster_def tabMap_def score_or_3_def)

lemma parseInt_number_of_int:
  assumes "\<bar>i\<bar> < 10 ^ 21"
  shows "parseInt_number (of_int i) = i"
proof -
  have a: "\<bar>rat_of_int i\<bar> = of_int \<bar>i\<bar>" by simp
  from assms have "rat_of_int \<bar>i\<bar> < of_int (10 ^ 21)" by (simp only: of_int_less_iff)
  then have 1: "\<not> 10 ^ 21 \<le> \<bar>rat_of_int i\<bar>" unfolding a by simp
  have "0 < \<bar>i\<bar> \<Longrightarrow> 1 \<le> rat_of_int \<bar>i\<bar>" by linarith
  then have 2: "\<not> (0 < \<bar>rat_of_int i\<bar> \<and> \<bar>rat_of_int i\<bar> < 1 / 10 ^ 6)"
    unfolding a by (auto simp: not_less) 
  have 3: "\<lfloor>\<bar>rat_of_int i\<bar>\<rfloor> = \<bar>i\<bar>" unfolding a by (rule floor_of_int)
  have 4: "(rat_of_int i < 0) = (i < 0)" by simp
  show ?thesis unfolding parseInt_number_def Let_def using 1 2 by (simp only: 3 4 if_False) simp
qed

lemma analyze_be_parsed:
  assumes "match_greedy CHR ''{'' CHR ''}'' c = Some m" "P m = Some (JObj ps)"
  shows "final_score_be (analyzeAndPrioritizeTab_be P (Content c) tab)
           = Some (clamp_score (map_of ps ''priorityScore''))"
  using assms
  by (simp add: final_score_be_def analyzeAndPrioritizeTab_be_def try_analyze_be_def read_prop_def)

lemma analyze_ext_parsed:
  assumes "configured k" "match_greedy CHR ''{'' CHR ''}'' c = Some m" "P m = Some (JObj ps)"
  shows "final_score_ext (analyzeAndPrioritizeTab_ext P k (Content c) tab)
           = Some (clamp_score (map_of ps ''priorityScore''))"
  using assms
  by (simp add: final_score_ext_def analyzeAndPrioritizeTab_ext_def try_analyze_ext_def read_prop_def)

subsection \<open>The batch\<close>

lemma analyze_one_be_id: "tab_id (analyze_one_be P provider t) = tab_id t"
  by (auto simp: analyze_one_be_def degraded_be_def analyzeAndPrioritizeTab_be_def try_analyze_be_def
      split: sum.splits reply.splits option.splits)

lemma analyze_one_be_failed:
  "provider tab = Failed msg \<Longrightarrow> analyze_one_be P provider tab = degraded_be tab msg"
  by (simp add: analyze_one_be_def analyzeAndPrioritizeTab_be_def)

lemma analyze_one_be_unrecoverable:
  "provider tab = Content c \<Longrightarrow> unrecoverable P CHR ''{'' CHR ''}'' c \<Longrightarrow>
     analyze_one_be P provider tab =
       \<lparr>tab_id = tab_id tab, title = title tab, url = url tab,
        summary = JStr (take 200 c), priorityScore = 3,
        priorityRationale = JStr ''Unable to determine priority'',
        topics = JArr (map JStr (extractTopics c tab)), error = None\<rparr>"
  by (simp add: analyze_one_be_def analyzeAndPrioritizeTab_be_def try_analyze_be_unrecoverable)

lemma analyzeTabs_clusters:
  assumes "distinct (map tab_id tabs)"
  shows "no_loss_no_duplication (clusters (analyzeTabs P K H provider cp tabs))
           (map (analyze_one_be P provider) tabs)"
proof -
  have "map tab_id (map (analyze_one_be P provider) tabs) = map tab_id tabs"
    by (simp add: analyze_one_be_id)
  with assms have "distinct (map tab_id (map (analyze_one_be P provider) tabs))"
    by (simp only:)
  from cluster_be_partition[OF this] show ?thesis
    by (simp add: analyzeTabs_def Let_def)
qed

section \<open>The claims\<close>

text \<open>
  Claim C1 (no tab loss, no duplication), as amended. For a batch whose ids are distinct:
  the clusters \<^verbatim>\<open>validateAndSortClusters\<close> returns for a candidate array, in either copy and
  whatever the origin of the candidates, hold every input id exactly once; so do the final
  clusters of the backend's \<^verbatim>\<open>clusterAndSortTabs\<close> on every path. The extension's
  domain-based fallback holds exactly the ids of the tabs whose URL parses, each once, and
  the extension's final clusters hold every input id once when every URL parses.
\<close>

theorem no_tab_lost_or_duplicated:
  assumes "distinct (map tab_id tabSummaries)"
  shows "(\<forall>out. validateAndSortClusters_be collation hostname (JArr candidates) tabSummaries = Inr out
            \<longrightarrow> no_loss_no_duplication out tabSummaries)
       \<and> (\<forall>out. validateAndSortClusters_ext collation hostname (JArr candidates) tabSummaries = Inr out
            \<longrightarrow> no_loss_no_duplication out tabSummaries)
       \<and> no_loss_no_duplication (clusterAndSortTabs_be json_parse collation hostname r tabSummaries) tabSummaries
       \<and> no_loss_no_duplication (fallbackClustering_ext hostname tabSummaries)
            (filter (\<lambda>t. hostname (url t) \<noteq> None) tabSummaries)
       \<and> ((\<forall>t\<in>set tabSummaries. hostname (url t) \<noteq> None)
            \<longrightarrow> no_loss_no_duplication
                  (clusterAndSortTabs_ext json_parse collation hostname apiKey r tabSummaries) tabSummaries)"
  using validate_be_partition[OF _ assms, where K = collation]
    validate_ext_array_partition[OF _ assms, where K = collation]
    cluster_be_partition[OF assms, where K = collation] fallback_ext_partition[OF assms]
    cluster_ext_partition[OF assms, where K = collation]
  by blast

theorem no_tab_lost_or_duplicated_witness:
  "distinct (map tab_id example_tabs)
   \<and> validateAndSortClusters_be example_collation example_hostname (JArr example_candidates) example_tabs
       = Inr example_validated
   \<and> validateAndSortClusters_ext example_collation example_hostname (JArr example_candidates) example_tabs
       = Inr example_validated
   \<and> map (\<lambda>t. example_hostname (url t)) example_tabs
       = [Some ''news.ycombinator.com'', Some ''news.ycombinator.com'', Some ''example.com'']
   \<and> no_loss_no_duplication example_validated example_tabs
   \<and> no_loss_no_duplication
        (clusterAndSortTabs_ext example_parse example_collation example_hostname (Some ''gsk'') (Content ''[]'') example_tabs)
        example_tabs"
proof -
  have d: "distinct (map tab_id example_tabs)" by code_simp
  have b: "validateAndSortClusters_be example_collation example_hostname (JArr example_candidates) example_tabs
     = Inr example_validated" by code_simp
  have e: "validateAndSortClusters_ext example_collation example_hostname (JArr example_candidates) example_tabs
     = Inr example_validated" by code_simp
  have h: "map (\<lambda>t. example_hostname (url t)) example_tabs
       = [Some ''news.ycombinator.com'', Some ''news.ycombinator.com'', Some ''example.com'']"
    by code_simp
  have u: "\<forall>t\<in>set example_tabs. example_hostname (url t) \<noteq> None" by code_simp
  from no_tab_lost_or_duplicated[OF d, where collation = example_collation and hostname = example_hostname
      and candidates = example_candidates and json_parse = example_parse
      and apiKey = "Some ''gsk''" and r = "Content ''[]''"] b e u
  show ?thesis using d h by blast
qed

theorem tab_lost_counterexample:
  "distinct (map tab_id low_tabs)
   \<and> \<not> no_loss_no_duplication
         (clusterAndSortTabs_ext example_parse example_collation example_hostname (Some ''gsk'')
            (Failed ''Groq API error: 503'') low_tabs)
         low_tabs"
  by code_simp

text \<open>
  Claim C2 (score clamping), as amended. The final \<^verbatim>\<open>priorityScore\<close> of every analysis is one
  of 1, 2, 3, 4, 5. When the reply holds an object, the score is computed from its
  \<^verbatim>\<open>priorityScore\<close> property: a value that \<^verbatim>\<open>parseInt\<close> reads as an integer other than 0 is
  clamped to the nearest bound of [1, 5]; a value read as 0, a non-numeric value and an
  absent one give 3. An integer of magnitude below \<open>10\<^sup>2\<^sup>1\<close> is read as itself.
\<close>

theorem priorityScore_clamped:
  "(\<forall>a. analyzeAndPrioritizeTab_be json_parse r tab = Inr a \<longrightarrow> priorityScore a \<in> {1..5})
   \<and> priorityScore (analyze_one_be json_parse provider tab) \<in> {1..5}
   \<and> (\<forall>a. analyzeAndPrioritizeTab_ext json_parse apiKey r tab = Inr a
          \<longrightarrow> priorityScore_ext a \<in> {1..5})
   \<and> (match_greedy CHR ''{'' CHR ''}'' content = Some m \<and> json_parse m = Some (JObj ps)
        \<longrightarrow> final_score_be (analyzeAndPrioritizeTab_be json_parse (Content content) tab)
              = Some (clamp_score (map_of ps ''priorityScore''))
          \<and> (configured apiKey
               \<longrightarrow> final_score_ext (analyzeAndPrioritizeTab_ext json_parse apiKey (Content content) tab)
                     = Some (clamp_score (map_of ps ''priorityScore''))))
   \<and> (parseInt v = Some n \<and> n \<noteq> 0
        \<longrightarrow> clamp_score v = (if n < 1 then 1 else if 5 < n then 5 else n))
   \<and> (parseInt v = Some 0 \<or> parseInt v = None \<longrightarrow> clamp_score v = 3)
   \<and> (\<bar>i\<bar> < 10 ^ 21 \<longrightarrow> parseInt (Some (JNum (of_int i))) = Some i)
   \<and> parseInt None = None"
proof -
  have 1: "\<forall>a. analyzeAndPrioritizeTab_be json_parse r tab = Inr a \<longrightarrow> priorityScore a \<in> {1..5}"
    using analyze_be_score by auto
  have 2: "priorityScore (analyze_one_be json_parse provider tab) \<in> {1..5}"
    using analyze_one_be_score[of json_parse provider tab] by simp
  have 3: "\<forall>a. analyzeAndPrioritizeTab_ext json_parse apiKey r tab = Inr a
          \<longrightarrow> priorityScore_ext a \<in> {1..5}"
    using analyze_ext_score by auto
  have 4: "match_greedy CHR ''{'' CHR ''}'' content = Some m \<and> json_parse m = Some (JObj ps)
        \<longrightarrow> final_score_be (analyzeAndPrioritizeTab_be json_parse (Content content) tab)
              = Some (clamp_score (map_of ps ''priorityScore''))
          \<and> (configured apiKey
               \<longrightarrow> final_score_ext (analyzeAndPrioritizeTab_ext json_parse apiKey (Content content) tab)
                     = Some (clamp_score (map_of ps ''priorityScore'')))"
    using analyze_be_parsed analyze_ext_parsed by blast
  have 5: "parseInt v = Some n \<and> n \<noteq> 0
        \<longrightarrow> clamp_score v = (if n < 1 then 1 else if 5 < n then 5 else n)"
    by (simp add: clamp_score_def)
  have 6: "parseInt v = Some 0 \<or> parseInt v = None \<longrightarrow> clamp_score v = 3"
    by (auto simp: clamp_score_def)
  have 7: "\<bar>i\<bar> < 10 ^ 21 \<longrightarrow> parseInt (Some (JNum (of_int i))) = Some i"
    by (simp add: parseInt_number_of_int)
  from 1 2 3 4 5 6 7 show ?thesis by simp
qed

theorem priorityScore_clamped_witness:
  "match_greedy CHR ''{'' CHR ''}'' (score_text ''7'') = Some (''{'' @ quoted ''priorityScore'' @ '': 7}'')
   \<and> example_parse (''{'' @ quoted ''priorityScore'' @ '': 7}'') = Some (JObj [(''priorityScore'', JNum 7)])
   \<and> configured (Some ''gsk'')
   \<and> final_score_be (analyzeAndPrioritizeTab_be example_parse (Content (score_text ''7'')) example_input)
       = Some 5
   \<and> final_score_ext
        (analyzeAndPrioritizeTab_ext example_parse (Some ''gsk'') (Content (score_text ''7'')) example_input)
       = Some 5
   \<and> parseInt (Some (JNum 7)) = Some 7 \<and> clamp_score (Some (JNum 7)) = 5
   \<and> parseInt (Some (JNum (- 2))) = Some (- 2) \<and> clamp_score (Some (JNum (- 2))) = 1
   \<and> parseInt (Some (JStr ''high'')) = None \<and> clamp_score (Some (JStr ''high'')) = 3
   \<and> parseInt (Some (JNum 0)) = Some 0 \<and> clamp_score (Some (JNum 0)) = 3
   \<and> clamp_score None = 3"
proof -
  have m: "match_greedy CHR ''{'' CHR ''}'' (score_text ''7'') = Some (''{'' @ quoted ''priorityScore'' @ '': 7}'')"
    by code_simp
  have p: "example_parse (''{'' @ quoted ''priorityScore'' @ '': 7}'') = Some (JObj [(''priorityScore'', JNum 7)])"
    by code_simp
  have k: "configured (Some ''gsk'')" by code_simp
  have h: "parseInt (Some (JStr ''high'')) = None" by code_simp
  have s7: "parseInt (Some (JNum (of_int 7))) = Some 7"
    using priorityScore_clamped[where i = 7] by simp
  have s2: "parseInt (Some (JNum (of_int (- 2)))) = Some (- 2)"
    using priorityScore_clamped[where i = "- 2"] by simp
  have s0: "parseInt (Some (JNum (of_int 0))) = Some 0"
    using priorityScore_clamped[where i = 0] by simp
  note a = priorityScore_clamped[where json_parse = example_parse and content = "score_text ''7''"
      and m = "''{'' @ quoted ''priorityScore'' @ '': 7}''" and ps = "[(''priorityScore'', JNum 7)]"
      and apiKey = "Some ''gsk''" and tab = example_input and v = "Some (JNum 7)" and n = 7]
  note b = priorityScore_clamped[where v = "Some (JNum (- 2))" and n = "- 2"]
  note c = priorityScore_clamped[where v = "Some (JStr ''high'')"]
  note d = priorityScore_clamped[where v = "Some (JNum 0)"]
  note e = priorityScore_clamped[where v = None]
  have c7: "clamp_score (Some (JNum 7)) = 5" using a s7 by simp
  have c2: "clamp_score (Some (JNum (- 2))) = 1" using b s2 by simp
  have ch: "clamp_score (Some (JStr ''high'')) = 3" using c h by simp
  have c0: "clamp_score (Some (JNum 0)) = 3" using d s0 by simp
  have cn: "clamp_score None = 3" using e by simp
  have fb: "final_score_be (analyzeAndPrioritizeTab_be example_parse (Content (score_text ''7'')) example_input)
       = Some 5" using a m p c7 by simp
  have fe: "final_score_ext
        (analyzeAndPrioritizeTab_ext example_parse (Some ''gsk'') (Content (score_text ''7'')) example_input)
       = Some 5" using a m p k c7 by simp
  from m p k fb fe s7 c7 s2 c2 h ch s0 c0 cn show ?thesis by simp
qed

theorem zero_score_counterexample:
  "final_score_be (analyzeAndPrioritizeTab_be example_parse (Content (score_text ''0'')) example_input)
     = Some 3
   \<and> final_score_ext
        (analyzeAndPrioritizeTab_ext example_parse (Some ''gsk'') (Content (score_text ''0'')) example_input)
     = Some 3
   \<and> clamp_score (Some (JNum 0)) = 3"
  by code_simp

text \<open>
  Claim C3 (degraded analysis on failure), as amended. A failed analysis always has
  \<^verbatim>\<open>priorityScore\<close> 3, and what else it holds depends on the copy and on the failure.
  Backend, request failed: the summary is title, \<^verbatim>\<open>" - "\<close> and the meta description (or
  \<^verbatim>\<open>"Web page content"\<close>), the topics are empty and \<^verbatim>\<open>error\<close> is the message. Backend, reply
  without a recoverable object: the summary is the first 200 characters of the reply, the
  topics come from the word heuristic over the reply and \<^verbatim>\<open>error\<close> is not set. Extension,
  with an API key, either failure: the summary is built from title and meta description,
  the topics come from the vocabulary heuristic, and the object has no \<^verbatim>\<open>error\<close> field;
  without an API key the analyzer throws. In the backend's batch each tab is analyzed from
  its own reply: all are counted as processed, the analyses without an error are
  returned as summaries, and every tab's id is in exactly one cluster when ids are distinct.
\<close>

theorem failed_analysis_is_degraded:
  "(provider tab = Failed msg \<longrightarrow>
      analyze_one_be json_parse provider tab =
        \<lparr>tab_id = tab_id tab, title = title tab, url = url tab,
         summary = JStr (title tab @ '' - '' @
                     (if metaDescription tab = [] then ''Web page content'' else metaDescription tab)),
         priorityScore = 3, priorityRationale = JStr ''Analysis unavailable'',
         topics = JArr [], error = Some msg\<rparr>)
   \<and> (provider tab = Content content \<and> unrecoverable json_parse CHR ''{'' CHR ''}'' content \<longrightarrow>
      analyze_one_be json_parse provider tab =
        \<lparr>tab_id = tab_id tab, title = title tab, url = url tab,
         summary = JStr (take 200 content), priorityScore = 3,
         priorityRationale = JStr ''Unable to determine priority'',
         topics = JArr (map JStr (extractTopics content tab)), error = None\<rparr>)
   \<and> (configured apiKey
        \<and> (r = Failed msg \<or> r = Content content \<and> unrecoverable json_parse CHR ''{'' CHR ''}'' content)
      \<longrightarrow> analyzeAndPrioritizeTab_ext json_parse apiKey r tab =
            Inr \<lparr>summary_ext = JStr (title tab @ '' - '' @
                     (if metaDescription tab = [] then ''Web page content'' else metaDescription tab)),
                 priorityScore_ext = 3,
                 priorityRationale_ext = JStr ''Unable to analyze - default priority assigned'',
                 topics_ext = JArr (map JStr (extractBasicTopics tab))\<rparr>)
   \<and> (\<not> configured apiKey
      \<longrightarrow> analyzeAndPrioritizeTab_ext json_parse apiKey r tab
            = Inl (Error ''Groq API key not configured''))
   \<and> processed (analyzeTabs json_parse collation hostname provider cluster_provider tabs) = length tabs
   \<and> summaries (analyzeTabs json_parse collation hostname provider cluster_provider tabs)
       = filter (\<lambda>s. \<not> has_error s) (map (analyze_one_be json_parse provider) tabs)
   \<and> (distinct (map tab_id tabs)
      \<longrightarrow> no_loss_no_duplication
            (clusters (analyzeTabs json_parse collation hostname provider cluster_provider tabs))
            (map (analyze_one_be json_parse provider) tabs))"
proof -
  have 1: "provider tab = Failed msg \<longrightarrow>
      analyze_one_be json_parse provider tab =
        \<lparr>tab_id = tab_id tab, title = title tab, url = url tab,
         summary = JStr (title tab @ '' - '' @
                     (if metaDescription tab = [] then ''Web page content'' else metaDescription tab)),
         priorityScore = 3, priorityRationale = JStr ''Analysis unavailable'',
         topics = JArr [], error = Some msg\<rparr>"
    by (simp add: analyze_one_be_failed degraded_be_def or_default_def)
  have 2: "provider tab = Content content \<and> unrecoverable json_parse CHR ''{'' CHR ''}'' content \<longrightarrow>
      analyze_one_be json_parse provider tab =
        \<lparr>tab_id = tab_id tab, title = title tab, url = url tab,
         summary = JStr (take 200 content), priorityScore = 3,
         priorityRationale = JStr ''Unable to determine priority'',
         topics = JArr (map JStr (extractTopics content tab)), error = None\<rparr>"
    using analyze_one_be_unrecoverable by blast
  have 3: "configured apiKey
        \<and> (r = Failed msg \<or> r = Content content \<and> unrecoverable json_parse CHR ''{'' CHR ''}'' content)
      \<longrightarrow> analyzeAndPrioritizeTab_ext json_parse apiKey r tab =
            Inr \<lparr>summary_ext = JStr (title tab @ '' - '' @
                     (if metaDescription tab = [] then ''Web page content'' else metaDescription tab)),
                 priorityScore_ext = 3,
                 priorityRationale_ext = JStr ''Unable to analyze - default priority assigned'',
                 topics_ext = JArr (map JStr (extractBasicTopics tab))\<rparr>"
    using analyze_ext_degraded(1)[of apiKey json_parse msg tab]
      analyze_ext_degraded(2)[of apiKey json_parse content tab]
    by (auto simp: degraded_ext_def or_default_def)
  have 4: "\<not> configured apiKey
      \<longrightarrow> analyzeAndPrioritizeTab_ext json_parse apiKey r tab
            = Inl (Error ''Groq API key not configured'')"
    by (simp add: analyzeAndPrioritizeTab_ext_def)
  have 5: "processed (analyzeTabs json_parse collation hostname provider cluster_provider tabs) = length tabs"
    by (simp add: analyzeTabs_def Let_def)
  have 6: "summaries (analyzeTabs json_parse collation hostname provider cluster_provider tabs)
       = filter (\<lambda>s. \<not> has_error s) (map (analyze_one_be json_parse provider) tabs)"
    by (simp add: analyzeTabs_def Let_def)
  have 7: "distinct (map tab_id tabs)
      \<longrightarrow> no_loss_no_duplication
            (clusters (analyzeTabs json_parse collation hostname provider cluster_provider tabs))
            (map (analyze_one_be json_parse provider) tabs)"
    using analyzeTabs_clusters by blast
  from 1 2 3 4 5 6 7 show ?thesis by blast
qed

theorem failed_analysis_is_degraded_witness:
  "analyze_one_be example_parse (\<lambda>t. Failed ''Groq API error (503): busy'') example_input =
     \<lparr>tab_id = JNum 1, title = ''Rust API news'', url = ''https://example.com/rust'',
      summary = JStr ''Rust API news - Web page content'', priorityScore = 3,
      priorityRationale = JStr ''Analysis unavailable'', topics = JArr [],
      error = Some ''Groq API error (503): busy''\<rparr>
   \<and> unrecoverable example_parse CHR ''{'' CHR ''}'' refusal
   \<and> analyze_one_be example_parse (\<lambda>t. Content refusal) example_input =
     \<lparr>tab_id = JNum 1, title = ''Rust API news'', url = ''https://example.com/rust'',
      summary = JStr ''I cannot analyze this page.'', priorityScore = 3,
      priorityRationale = JStr ''Unable to determine priority'',
      topics = JArr [JStr ''cannot'', JStr ''analyze'', JStr ''page'', JStr ''rust'', JStr ''news''],
      error = None\<rparr>
   \<and> configured (Some ''gsk'')
   \<and> analyzeAndPrioritizeTab_ext example_parse (Some ''gsk'') (Content refusal) example_input =
     Inr \<lparr>summary_ext = JStr ''Rust API news - Web page content'', priorityScore_ext = 3,
          priorityRationale_ext = JStr ''Unable to analyze - default priority assigned'',
          topics_ext = JArr [JStr ''news'', JStr ''tutorial'', JStr ''api'']\<rparr>
   \<and> \<not> configured None
   \<and> analyzeAndPrioritizeTab_ext example_parse None (Content refusal) example_input
       = Inl (Error ''Groq API key not configured'')
   \<and> distinct (map tab_id [example_input, example_input\<lparr>tab_id := JNum 2\<rparr>])
   \<and> processed (analyzeTabs example_parse example_collation example_hostname
         (\<lambda>t. if tab_id t = JNum 1 then Failed ''timeout'' else Content refusal)
         (\<lambda>s. Failed ''timeout'') [example_input, example_input\<lparr>tab_id := JNum 2\<rparr>]) = 2
   \<and> map tab_id (summaries (analyzeTabs example_parse example_collation example_hostname
         (\<lambda>t. if tab_id t = JNum 1 then Failed ''timeout'' else Content refusal)
         (\<lambda>s. Failed ''timeout'') [example_input, example_input\<lparr>tab_id := JNum 2\<rparr>])) = [JNum 2]
   \<and> concat (map tabIds_of (clusters (analyzeTabs example_parse example_collation example_hostname
         (\<lambda>t. if tab_id t = JNum 1 then Failed ''timeout'' else Content refusal)
         (\<lambda>s. Failed ''timeout'') [example_input, example_input\<lparr>tab_id := JNum 2\<rparr>])))
       = [JNum 1, JNum 2]"
proof -
  let ?tabs = "[example_input, example_input\<lparr>tab_id := JNum 2\<rparr>]"
  let ?prov = "\<lambda>t::tab_input. if tab_id t = JNum 1 then Failed ''timeout'' else Content refusal"
  let ?cp = "\<lambda>s::tab_summary list. Failed ''timeout''"
  have u: "unrecoverable example_parse CHR ''{'' CHR ''}'' refusal" by code_simp
  have k: "configured (Some ''gsk'')" by code_simp
  have nk: "\<not> configured None" by code_simp
  have d: "distinct (map tab_id ?tabs)" by code_simp
  have x: "extractTopics refusal example_input = [''cannot'', ''analyze'', ''page'', ''rust'', ''news'']"
    by code_simp
  have y: "extractBasicTopics example_input = [''news'', ''tutorial'', ''api'']"
    by code_simp
  note a = failed_analysis_is_degraded[where json_parse = example_parse and collation = example_collation and tab = example_input
      and provider = "\<lambda>t. Failed ''Groq API error (503): busy''"
      and msg = "''Groq API error (503): busy''"]
  note b = failed_analysis_is_degraded[where json_parse = example_parse and collation = example_collation and tab = example_input
      and provider = "\<lambda>t. Content refusal" and content = refusal
      and apiKey = "Some ''gsk''" and r = "Content refusal"]
  note c = failed_analysis_is_degraded[where json_parse = example_parse and collation = example_collation and tab = example_input
      and apiKey = None and r = "Content refusal"]
  note e = failed_analysis_is_degraded[where json_parse = example_parse and collation = example_collation and hostname = example_hostname
      and provider = ?prov and cluster_provider = ?cp and tabs = ?tabs]
  have 1: "analyze_one_be example_parse (\<lambda>t. Failed ''Groq API error (503): busy'') example_input =
     \<lparr>tab_id = JNum 1, title = ''Rust API news'', url = ''https://example.com/rust'',
      summary = JStr ''Rust API news - Web page content'', priorityScore = 3,
      priorityRationale = JStr ''Analysis unavailable'', topics = JArr [],
      error = Some ''Groq API error (503): busy''\<rparr>"
    using a by (simp add: example_input_def)
  have 2: "analyze_one_be example_parse (\<lambda>t. Content refusal) example_input =
     \<lparr>tab_id = JNum 1, title = ''Rust API news'', url = ''https://example.com/rust'',
      summary = JStr ''I cannot analyze this page.'', priorityScore = 3,
      priorityRationale = JStr ''Unable to determine priority'',
      topics = JArr [JStr ''cannot'', JStr ''analyze'', JStr ''page'', JStr ''rust'', JStr ''news''],
      error = None\<rparr>"
    using b u x by (simp add: example_input_def refusal_def)
  have 3: "analyzeAndPrioritizeTab_ext example_parse (Some ''gsk'') (Content refusal) example_input =
     Inr \<lparr>summary_ext = JStr ''Rust API news - Web page content'', priorityScore_ext = 3,
          priorityRationale_ext = JStr ''Unable to analyze - default priority assigned'',
          topics_ext = JArr [JStr ''news'', JStr ''tutorial'', JStr ''api'']\<rparr>"
    using b u k y by (simp add: example_input_def)
  have 4: "analyzeAndPrioritizeTab_ext example_parse None (Content refusal) example_input
       = Inl (Error ''Groq API key not configured'')"
    using c nk by simp
  have 5: "processed (analyzeTabs example_parse example_collation example_hostname ?prov ?cp ?tabs) = 2"
    using e by simp
  have 6: "map tab_id (summaries (analyzeTabs example_parse example_collation example_hostname ?prov ?cp ?tabs)) = [JNum 2]"
    by code_simp
  have 7: "concat (map tabIds_of (clusters (analyzeTabs example_parse example_collation example_hostname ?prov ?cp ?tabs)))
       = [JNum 1, JNum 2]"
    by code_simp
  from 1 u 2 k 3 nk 4 d 5 6 7 show ?thesis by blast
qed

theorem failed_analysis_counterexample:
  "error (analyze_one_be example_parse (\<lambda>t. Content refusal) example_input) = None
   \<and> summary (analyze_one_be example_parse (\<lambda>t. Content refusal) example_input)
       = JStr ''I cannot analyze this page.''
   \<and> topics (analyze_one_be example_parse (\<lambda>t. Failed ''timeout'') example_input) = JArr []
   \<and> extractBasicTopics example_input = [''news'', ''tutorial'', ''api'']
   \<and> analyzeAndPrioritizeTab_ext example_parse None (Failed ''timeout'') example_input
       = Inl (Error ''Groq API key not configured'')"
  by code_simp

text \<open>
  Claim C4 (cluster priority), as amended. In the result of \<^verbatim>\<open>validateAndSortClusters\<close> for
  a candidate array, every cluster built from a candidate, that is every cluster that
  holds an id listed by a candidate with a name and an array of ids, carries the
  arithmetic mean of its members' scores rounded to 1 decimal place; the only cluster of
  the result that holds no such id is the synthesized one, named \<^verbatim>\<open>"Other"\<close>. The clusters
  of the domain-based fallback, which are the final clusters when the request fails, carry
  the mean itself, not rounded (no score being 0).
\<close>

theorem cluster_priority_is_mean:
  "(\<forall>out. validateAndSortClusters_be collation hostname (JArr candidates) tabSummaries = Inr out
      \<longrightarrow> (\<forall>c\<in>set out.
             (set (tabIds_of c) \<inter> claimed_ids candidates \<noteq> {}
                \<longrightarrow> priority_is_rounded_mean tabSummaries c)
             \<and> (set (tabIds_of c) \<inter> claimed_ids candidates = {}
                \<longrightarrow> name_of c = Some (JStr ''Other''))))
   \<and> (\<forall>out. validateAndSortClusters_ext collation hostname (JArr candidates) tabSummaries = Inr out
      \<longrightarrow> (\<forall>c\<in>set out.
             (set (tabIds_of c) \<inter> claimed_ids candidates \<noteq> {}
                \<longrightarrow> priority_is_rounded_mean tabSummaries c)
             \<and> (set (tabIds_of c) \<inter> claimed_ids candidates = {}
                \<longrightarrow> name_of c = Some (JStr ''Other''))))
   \<and> ((\<forall>t\<in>set tabSummaries. priorityScore t \<noteq> 0)
      \<longrightarrow> (\<forall>c\<in>set (fallbackClustering_be hostname tabSummaries). priority_is_mean tabSummaries c)
        \<and> (\<forall>c\<in>set (fallbackClustering_ext hostname tabSummaries). priority_is_mean tabSummaries c)
        \<and> (\<forall>c\<in>set (clusterAndSortTabs_ext json_parse collation hostname apiKey (Failed msg) tabSummaries).
              priority_is_mean tabSummaries c)
        \<and> (2 \<le> length tabSummaries
            \<longrightarrow> (\<forall>c\<in>set (clusterAndSortTabs_be json_parse collation hostname (Failed msg) tabSummaries).
                    priority_is_mean tabSummaries c)))"
proof -
  have 1: "\<forall>out. validateAndSortClusters_be collation hostname (JArr candidates) tabSummaries = Inr out
      \<longrightarrow> (\<forall>c\<in>set out.
             (set (tabIds_of c) \<inter> claimed_ids candidates \<noteq> {}
                \<longrightarrow> priority_is_rounded_mean tabSummaries c)
             \<and> (set (tabIds_of c) \<inter> claimed_ids candidates = {}
                \<longrightarrow> name_of c = Some (JStr ''Other'')))"
    using validate_array_be_candidates[where K = collation and cs = candidates and tabs = tabSummaries]
    by (simp add: priority_is_rounded_mean_def)
  have 2: "\<forall>out. validateAndSortClusters_ext collation hostname (JArr candidates) tabSummaries = Inr out
      \<longrightarrow> (\<forall>c\<in>set out.
             (set (tabIds_of c) \<inter> claimed_ids candidates \<noteq> {}
                \<longrightarrow> priority_is_rounded_mean tabSummaries c)
             \<and> (set (tabIds_of c) \<inter> claimed_ids candidates = {}
                \<longrightarrow> name_of c = Some (JStr ''Other'')))"
    using validate_array_be_candidates[where K = collation and cs = candidates and tabs = tabSummaries]
    by (simp add: priority_is_rounded_mean_def validate_array_ext_be)
  have 3: "(\<forall>t\<in>set tabSummaries. priorityScore t \<noteq> 0)
      \<longrightarrow> (\<forall>c\<in>set (fallbackClustering_be hostname tabSummaries). priority_is_mean tabSummaries c)
        \<and> (\<forall>c\<in>set (fallbackClustering_ext hostname tabSummaries). priority_is_mean tabSummaries c)"
    using fallback_be_by_score(2) fallback_ext_by_score(2) by blast
  have 4: "clusterAndSortTabs_ext json_parse collation hostname apiKey (Failed msg) tabSummaries
      = fallbackClustering_ext hostname tabSummaries"
    by (rule cluster_ext_failed)
  have 5: "2 \<le> length tabSummaries
      \<longrightarrow> clusterAndSortTabs_be json_parse collation hostname (Failed msg) tabSummaries
          = fallbackClustering_be hostname tabSummaries"
    by (simp add: clusterAndSortTabs_be_def)
  from 1 2 3 show ?thesis unfolding 4 using 5 by simp
qed

theorem cluster_priority_is_mean_witness:
  "map priorityScore thirds_tabs = [1, 1, 2]
   \<and> validateAndSortClusters_be example_collation example_hostname (JArr [thirds_mixed None]) thirds_tabs
       = Inr [thirds_mixed (Some (13 / 10))]
   \<and> set (tabIds_of (thirds_mixed (Some (13 / 10)))) \<inter> claimed_ids [thirds_mixed None] \<noteq> {}
   \<and> priority_is_rounded_mean thirds_tabs (thirds_mixed (Some (13 / 10)))
   \<and> validateAndSortClusters_ext example_collation example_hostname (JArr []) thirds_tabs
       = Inr [thirds_other (4 / 3)]
   \<and> set (tabIds_of (thirds_other (4 / 3))) \<inter> claimed_ids [] = {}
   \<and> name_of (thirds_other (4 / 3)) = Some (JStr ''Other'')
   \<and> map clusterPriority_of (fallbackClustering_be example_hostname thirds_tabs) = [4 / 3]
   \<and> map tabIds_of (fallbackClustering_be example_hostname thirds_tabs) = [[JNum 1, JNum 2, JNum 3]]
   \<and> mean_score thirds_tabs [JNum 1, JNum 2, JNum 3] = 4 / 3
   \<and> 2 \<le> length thirds_tabs
   \<and> map (priority_is_mean thirds_tabs)
        (clusterAndSortTabs_be example_parse example_collation example_hostname (Failed ''timeout'') thirds_tabs)
       = [True]"
proof -
  have s: "map priorityScore thirds_tabs = [1, 1, 2]" by code_simp
  have z: "\<forall>t\<in>set thirds_tabs. priorityScore t \<noteq> 0" by code_simp
  have v1: "validateAndSortClusters_be example_collation example_hostname (JArr [thirds_mixed None]) thirds_tabs
       = Inr [thirds_mixed (Some (13 / 10))]" by code_simp
  have v2: "validateAndSortClusters_ext example_collation example_hostname (JArr []) thirds_tabs
       = Inr [thirds_other (4 / 3)]" by code_simp
  have n1: "set (tabIds_of (thirds_mixed (Some (13 / 10)))) \<inter> claimed_ids [thirds_mixed None] \<noteq> {}"
    by code_simp
  have n2: "set (tabIds_of (thirds_other (4 / 3))) \<inter> claimed_ids [] = {}" by code_simp
  have f: "map clusterPriority_of (fallbackClustering_be example_hostname thirds_tabs) = [4 / 3]"
    by code_simp
  have i: "map tabIds_of (fallbackClustering_be example_hostname thirds_tabs) = [[JNum 1, JNum 2, JNum 3]]"
    by code_simp
  have l: "2 \<le> length thirds_tabs" by code_simp
  have len: "length (clusterAndSortTabs_be example_parse example_collation example_hostname
      (Failed ''timeout'') thirds_tabs) = 1" by code_simp
  note a = cluster_priority_is_mean[where collation = example_collation and hostname = example_hostname
      and candidates = "[thirds_mixed None]" and tabSummaries = thirds_tabs]
  note b = cluster_priority_is_mean[where collation = example_collation and hostname = example_hostname
      and candidates = "[]" and tabSummaries = thirds_tabs and json_parse = example_parse
      and msg = "''timeout''"]
  from a v1 n1 have 1: "priority_is_rounded_mean thirds_tabs (thirds_mixed (Some (13 / 10)))"
    by auto
  from b v2 n2 have 2: "name_of (thirds_other (4 / 3)) = Some (JStr ''Other'')"
    by auto
  from b z have "\<forall>c\<in>set (fallbackClustering_be example_hostname thirds_tabs).
      priority_is_mean thirds_tabs c" by blast
  then have "\<forall>c\<in>set (fallbackClustering_be example_hostname thirds_tabs).
      clusterPriority_of c = mean_score thirds_tabs (tabIds_of c)"
    by (simp add: priority_is_mean_def)
  then have "map clusterPriority_of (fallbackClustering_be example_hostname thirds_tabs)
      = map (mean_score thirds_tabs) (map tabIds_of (fallbackClustering_be example_hostname thirds_tabs))"
    by simp
  then have 3: "mean_score thirds_tabs [JNum 1, JNum 2, JNum 3] = 4 / 3"
    unfolding f i by simp
  from b z l have "\<forall>c\<in>set (clusterAndSortTabs_be example_parse example_collation example_hostname
      (Failed ''timeout'') thirds_tabs). priority_is_mean thirds_tabs c" by blast
  then have "map (priority_is_mean thirds_tabs)
        (clusterAndSortTabs_be example_parse example_collation example_hostname (Failed ''timeout'') thirds_tabs)
       = replicate (length (clusterAndSortTabs_be example_parse example_collation example_hostname
           (Failed ''timeout'') thirds_tabs)) True"
    by (simp add: map_replicate_const[symmetric] del: map_replicate_const) 
  then have 4: "map (priority_is_mean thirds_tabs)
        (clusterAndSortTabs_be example_parse example_collation example_hostname (Failed ''timeout'') thirds_tabs)
       = [True]"
    unfolding len by simp
  from s v1 n1 1 v2 n2 2 f i 3 l 4 show ?thesis by blast
qed

theorem unrounded_priority_counterexample:
  "map priorityScore thirds_tabs = [1, 1, 2]
   \<and> map tabIds_of
        (clusterAndSortTabs_be example_parse example_collation example_hostname (Failed ''timeout'') thirds_tabs)
       = [[JNum 1, JNum 2, JNum 3]]
   \<and> map clusterPriority_of
        (clusterAndSortTabs_be example_parse example_collation example_hostname (Failed ''timeout'') thirds_tabs)
       = [4 / 3]
   \<and> map clusterPriority_of
        (clusterAndSortTabs_ext example_parse example_collation example_hostname (Some ''gsk'')
           (Failed ''timeout'') thirds_tabs)
       = [4 / 3]
   \<and> mean_score thirds_tabs [JNum 1, JNum 2, JNum 3] = 4 / 3
   \<and> round1 (4 / 3) = 13 / 10
   \<and> map (priority_is_rounded_mean thirds_tabs)
        (clusterAndSortTabs_be example_parse example_collation example_hostname (Failed ''timeout'') thirds_tabs)
       = [False]"
  by code_simp

text \<open>
  Claim C5 (fewer than two analyses), as amended. In the backend, fewer than 2 analyses
  give exactly one cluster, named \<^verbatim>\<open>"All Tabs"\<close>, that holds all input ids; its priority is
  the tab's score, or 3 when the input is empty or the score is 0. In the extension such
  an input goes to the domain-based fallback: no cluster for the empty input or for a tab
  whose URL does not parse, and otherwise one cluster named after the first label of the
  tab's host, with the tab's id and the same priority.
\<close>

theorem fewer_than_two_analyses:
  assumes "length tabSummaries < 2"
  shows "clusterAndSortTabs_be json_parse collation hostname r tabSummaries = [all_tabs_cluster tabSummaries]
       \<and> name_of (all_tabs_cluster tabSummaries) = Some (JStr ''All Tabs'')
       \<and> tabIds_of (all_tabs_cluster tabSummaries) = map tab_id tabSummaries
       \<and> clusterPriority_of (all_tabs_cluster tabSummaries) =
           (case tabSummaries of
              [] \<Rightarrow> 3
            | t # ts \<Rightarrow> if priorityScore t = 0 then 3 else of_int (priorityScore t))
       \<and> clusterAndSortTabs_ext json_parse collation hostname apiKey r tabSummaries
           = fallbackClustering_ext hostname tabSummaries
       \<and> (tabSummaries = [] \<longrightarrow> fallbackClustering_ext hostname tabSummaries = [])
       \<and> (tabSummaries = [t] \<and> hostname (url t) = None
            \<longrightarrow> fallbackClustering_ext hostname tabSummaries = [])
       \<and> (tabSummaries = [t] \<and> hostname (url t) = Some h
            \<longrightarrow> fallbackClustering_ext hostname tabSummaries =
                 [json_of_cluster
                    \<lparr>name = capitalize (split_dot_first (replace_first ''www.'' [] h)),
                     description = ''Pages from '' @ replace_first ''www.'' [] h,
                     tabIds = [tab_id t],
                     clusterPriority = (if priorityScore t = 0 then 3 else of_int (priorityScore t))\<rparr>])"
proof -
  have 1: "clusterAndSortTabs_be json_parse collation hostname r tabSummaries = [all_tabs_cluster tabSummaries]"
    using assms by (simp add: clusterAndSortTabs_be_def)
  have 2: "clusterAndSortTabs_ext json_parse collation hostname apiKey r tabSummaries
           = fallbackClustering_ext hostname tabSummaries"
    using assms by (simp add: clusterAndSortTabs_ext_def)
  from 1 2 all_tabs_fields[of tabSummaries] fallback_ext_Nil[of hostname]
    fallback_ext_single_unparsed[of hostname t] fallback_ext_single[of hostname t h]
  show ?thesis by simp
qed

theorem fewer_than_two_analyses_witness:
  "length [example_tab 3 ''C'' ''https://www.example.com'' 4] < 2
   \<and> example_hostname ''https://www.example.com'' = Some ''www.example.com''
   \<and> clusterAndSortTabs_be example_parse example_collation example_hostname (Content ''[]'')
        [example_tab 3 ''C'' ''https://www.example.com'' 4]
       = [JObj [(''name'', JStr ''All Tabs''), (''description'', JStr ''All your open tabs''),
                (''tabIds'', JArr [JNum 3]), (''clusterPriority'', JNum 4)]]
   \<and> clusterAndSortTabs_ext example_parse example_collation example_hostname (Some ''gsk'') (Content ''[]'')
        [example_tab 3 ''C'' ''https://www.example.com'' 4]
       = [JObj [(''name'', JStr ''Example''), (''description'', JStr ''Pages from example.com''),
                (''tabIds'', JArr [JNum 3]), (''clusterPriority'', JNum 4)]]
   \<and> length ([] :: tab_summary list) < 2
   \<and> clusterAndSortTabs_be example_parse example_collation example_hostname (Content ''[]'') []
       = [JObj [(''name'', JStr ''All Tabs''), (''description'', JStr ''All your open tabs''),
                (''tabIds'', JArr []), (''clusterPriority'', JNum 3)]]
   \<and> clusterAndSortTabs_ext example_parse example_collation example_hostname (Some ''gsk'') (Content ''[]'') [] = []
   \<and> example_hostname ''not a url'' = None
   \<and> clusterAndSortTabs_ext example_parse example_collation example_hostname (Some ''gsk'') (Content ''[]'')
        [example_tab 3 ''C'' ''not a url'' 4] = []"
proof -
  let ?t = "example_tab 3 ''C'' ''https://www.example.com'' 4"
  let ?b = "example_tab 3 ''C'' ''not a url'' 4"
  have l: "length [?t] < 2" by simp
  have h: "example_hostname ''https://www.example.com'' = Some ''www.example.com''" by code_simp
  have u: "url ?t = ''https://www.example.com''" by (simp add: example_tab_def)
  have a: "all_tabs_cluster [?t]
       = JObj [(''name'', JStr ''All Tabs''), (''description'', JStr ''All your open tabs''),
                (''tabIds'', JArr [JNum 3]), (''clusterPriority'', JNum 4)]" by code_simp
  have c: "json_of_cluster
             \<lparr>name = capitalize (split_dot_first (replace_first ''www.'' [] ''www.example.com'')),
              description = ''Pages from '' @ replace_first ''www.'' [] ''www.example.com'',
              tabIds = [tab_id ?t],
              clusterPriority = (if priorityScore ?t = 0 then 3 else of_int (priorityScore ?t))\<rparr>
       = JObj [(''name'', JStr ''Example''), (''description'', JStr ''Pages from example.com''),
                (''tabIds'', JArr [JNum 3]), (''clusterPriority'', JNum 4)]" by code_simp
  note f = fewer_than_two_analyses[OF l, where json_parse = example_parse and collation = example_collation and hostname = example_hostname
      and r = "Content ''[]''" and apiKey = "Some ''gsk''" and t = ?t and h = "''www.example.com''"]
  from f h u a c have 1: "clusterAndSortTabs_be example_parse example_collation example_hostname (Content ''[]'') [?t]
       = [JObj [(''name'', JStr ''All Tabs''), (''description'', JStr ''All your open tabs''),
                (''tabIds'', JArr [JNum 3]), (''clusterPriority'', JNum 4)]]"
    and 2: "clusterAndSortTabs_ext example_parse example_collation example_hostname (Some ''gsk'') (Content ''[]'') [?t]
       = [JObj [(''name'', JStr ''Example''), (''description'', JStr ''Pages from example.com''),
                (''tabIds'', JArr [JNum 3]), (''clusterPriority'', JNum 4)]]"
    by simp_all
  have l0: "length ([] :: tab_summary list) < 2" by simp
  have a0: "all_tabs_cluster []
       = JObj [(''name'', JStr ''All Tabs''), (''description'', JStr ''All your open tabs''),
                (''tabIds'', JArr []), (''clusterPriority'', JNum 3)]" by code_simp
  note g = fewer_than_two_analyses[OF l0, where json_parse = example_parse
      and collation = example_collation and hostname = example_hostname and r = "Content ''[]''" and apiKey = "Some ''gsk''"]
  from g a0 have 3: "clusterAndSortTabs_be example_parse example_collation example_hostname (Content ''[]'') []
       = [JObj [(''name'', JStr ''All Tabs''), (''description'', JStr ''All your open tabs''),
                (''tabIds'', JArr []), (''clusterPriority'', JNum 3)]]"
    and 4: "clusterAndSortTabs_ext example_parse example_collation example_hostname (Some ''gsk'') (Content ''[]'') [] = []"
    by simp_all
  have lb: "length [?b] < 2" by simp
  have hb: "example_hostname ''not a url'' = None" by code_simp
  have ub: "url ?b = ''not a url''" by (simp add: example_tab_def)
  note k = fewer_than_two_analyses[OF lb, where json_parse = example_parse
      and collation = example_collation and hostname = example_hostname and r = "Content ''[]''" and apiKey = "Some ''gsk''" and t = ?b]
  from k hb ub have 5: "clusterAndSortTabs_ext example_parse example_collation example_hostname (Some ''gsk'')
      (Content ''[]'') [?b] = []"
    by simp
  from l h 1 2 l0 3 4 hb 5 show ?thesis by blast
qed

theorem fewer_than_two_counterexample:
  "clusterAndSortTabs_ext example_parse example_collation example_hostname (Some ''gsk'') (Content ''[]'') [] = []
   \<and> map name_of
        (clusterAndSortTabs_ext example_parse example_collation example_hostname (Some ''gsk'') (Content ''[]'')
           [example_tab 3 ''C'' ''https://www.example.com'' 4])
       = [Some (JStr ''Example'')]
   \<and> clusterAndSortTabs_ext example_parse example_collation example_hostname (Some ''gsk'') (Content ''[]'')
        [example_tab 3 ''C'' ''not a url'' 4] = []"
  by code_simp

text \<open>
  Claim C6 (order within a cluster), as amended. For a batch with distinct ids: in every
  cluster \<^verbatim>\<open>validateAndSortClusters\<close> returns for a candidate array, the synthesized
  \<^verbatim>\<open>"Other"\<close> cluster included, the ids are sorted non-decreasing by \<^verbatim>\<open>priorityScore\<close> and,
  for equal scores, non-decreasing by title in the order of \<^verbatim>\<open>localeCompare\<close>. In a cluster
  of the domain-based fallback the ids are sorted non-decreasing by score only, a score of
  0 counting as 3. When no score is 0, the ids of every final cluster are non-decreasing
  by score in both copies.
\<close>

theorem tabs_ordered_within_cluster:
  assumes "distinct (map tab_id tabSummaries)"
  shows "(\<forall>out. validateAndSortClusters_be collation hostname (JArr candidates) tabSummaries = Inr out
            \<longrightarrow> (\<forall>c\<in>set out. score_title_ordered collation tabSummaries (tabIds_of c)))
       \<and> (\<forall>out. validateAndSortClusters_ext collation hostname (JArr candidates) tabSummaries = Inr out
            \<longrightarrow> (\<forall>c\<in>set out. score_title_ordered collation tabSummaries (tabIds_of c)))
       \<and> (\<forall>c\<in>set (fallbackClustering_be hostname tabSummaries).
             sorted (map (\<lambda>i. score_or_3 (tabMap tabSummaries i)) (tabIds_of c)))
       \<and> (\<forall>c\<in>set (fallbackClustering_ext hostname tabSummaries).
             sorted (map (\<lambda>i. score_or_3 (tabMap tabSummaries i)) (tabIds_of c)))
       \<and> ((\<forall>t\<in>set tabSummaries. priorityScore t \<noteq> 0)
            \<longrightarrow> (\<forall>c\<in>set (clusterAndSortTabs_be json_parse collation hostname r tabSummaries).
                    score_ordered tabSummaries (tabIds_of c))
               \<and> (\<forall>c\<in>set (clusterAndSortTabs_ext json_parse collation hostname apiKey r tabSummaries).
                    score_ordered tabSummaries (tabIds_of c)))"
proof -
  note d = assms
  have 1: "\<forall>out. validateAndSortClusters_be collation hostname (JArr candidates) tabSummaries = Inr out
            \<longrightarrow> (\<forall>c\<in>set out. score_title_ordered collation tabSummaries (tabIds_of c))"
    using validate_array_be_clusters(1)[OF _ d, where K = collation] by simp
  have 2: "\<forall>out. validateAndSortClusters_ext collation hostname (JArr candidates) tabSummaries = Inr out
            \<longrightarrow> (\<forall>c\<in>set out. score_title_ordered collation tabSummaries (tabIds_of c))"
    using validate_array_be_clusters(1)[OF _ d, where K = collation] by (simp add: validate_array_ext_be)
  have 3: "\<forall>c\<in>set (fallbackClustering_be hostname tabSummaries).
             sorted (map (\<lambda>i. score_or_3 (tabMap tabSummaries i)) (tabIds_of c))"
    using fallback_finish_clusters(1) by (simp add: fallbackClustering_be_def)
  have 4: "\<forall>c\<in>set (fallbackClustering_ext hostname tabSummaries).
             sorted (map (\<lambda>i. score_or_3 (tabMap tabSummaries i)) (tabIds_of c))"
    using fallback_finish_clusters(1) by (simp add: fallbackClustering_ext_def)
  have 5: "(\<forall>t\<in>set tabSummaries. priorityScore t \<noteq> 0)
            \<longrightarrow> (\<forall>c\<in>set (clusterAndSortTabs_be json_parse collation hostname r tabSummaries).
                    score_ordered tabSummaries (tabIds_of c))
               \<and> (\<forall>c\<in>set (clusterAndSortTabs_ext json_parse collation hostname apiKey r tabSummaries).
                    score_ordered tabSummaries (tabIds_of c))"
    using cluster_be_ordered[OF d, where K = collation] cluster_ext_by_score(1)[OF d, where K = collation] by blast
  from 1 2 3 4 5 show ?thesis by blast
qed

theorem tabs_ordered_within_cluster_witness:
  "distinct (map tab_id mixed_case_tabs)
   \<and> map title mixed_case_tabs = [''Banana'', ''apple'', ''Cherry'']
   \<and> map priorityScore mixed_case_tabs = [2, 2, 1]
   \<and> example_collation ''apple'' < example_collation ''Banana''
   \<and> validateAndSortClusters_be example_collation example_hostname (JArr [mixed_case_candidate]) mixed_case_tabs
       = Inr mixed_case_validated
   \<and> validateAndSortClusters_ext example_collation example_hostname (JArr [mixed_case_candidate]) mixed_case_tabs
       = Inr mixed_case_validated
   \<and> map tabIds_of mixed_case_validated = [[JNum 3, JNum 2, JNum 1]]
   \<and> score_title_ordered example_collation mixed_case_tabs [JNum 3, JNum 2, JNum 1]
   \<and> \<not> score_title_ordered example_collation mixed_case_tabs [JNum 3, JNum 1, JNum 2]
   \<and> map tabIds_of (fallbackClustering_be example_hostname mixed_case_tabs) = [[JNum 3, JNum 1, JNum 2]]
   \<and> map tabIds_of
        (clusterAndSortTabs_be example_parse example_collation example_hostname (Failed ''timeout'') mixed_case_tabs)
       = [[JNum 3, JNum 1, JNum 2]]
   \<and> score_ordered mixed_case_tabs [JNum 3, JNum 1, JNum 2]"
proof -
  have d: "distinct (map tab_id mixed_case_tabs)" by code_simp
  have n: "map title mixed_case_tabs = [''Banana'', ''apple'', ''Cherry'']" by code_simp
  have s: "map priorityScore mixed_case_tabs = [2, 2, 1]" by code_simp
  have a: "example_collation ''apple'' < example_collation ''Banana''" by code_simp
  have b: "validateAndSortClusters_be example_collation example_hostname (JArr [mixed_case_candidate]) mixed_case_tabs
       = Inr mixed_case_validated" by code_simp
  have e: "validateAndSortClusters_ext example_collation example_hostname (JArr [mixed_case_candidate]) mixed_case_tabs
       = Inr mixed_case_validated" by code_simp
  have i: "map tabIds_of mixed_case_validated = [[JNum 3, JNum 2, JNum 1]]" by code_simp
  have x: "\<not> score_title_ordered example_collation mixed_case_tabs [JNum 3, JNum 1, JNum 2]" by code_simp
  have z: "\<forall>t\<in>set mixed_case_tabs. priorityScore t \<noteq> 0" by code_simp
  have g: "map tabIds_of (fallbackClustering_be example_hostname mixed_case_tabs) = [[JNum 3, JNum 1, JNum 2]]"
    by code_simp
  have f: "map tabIds_of
        (clusterAndSortTabs_be example_parse example_collation example_hostname (Failed ''timeout'') mixed_case_tabs)
       = [[JNum 3, JNum 1, JNum 2]]" by code_simp
  note t = tabs_ordered_within_cluster[OF d, where collation = example_collation
      and hostname = example_hostname and candidates = "[mixed_case_candidate]"
      and json_parse = example_parse and r = "Failed ''timeout''"]
  from t b have "\<forall>c\<in>set mixed_case_validated.
      score_title_ordered example_collation mixed_case_tabs (tabIds_of c)" by blast
  then have "\<forall>l\<in>set (map tabIds_of mixed_case_validated).
      score_title_ordered example_collation mixed_case_tabs l" by simp
  then have o: "score_title_ordered example_collation mixed_case_tabs [JNum 3, JNum 2, JNum 1]"
    unfolding i by simp
  from t z have "\<forall>c\<in>set (clusterAndSortTabs_be example_parse example_collation example_hostname
      (Failed ''timeout'') mixed_case_tabs). score_ordered mixed_case_tabs (tabIds_of c)" by blast
  then have "\<forall>l\<in>set (map tabIds_of (clusterAndSortTabs_be example_parse example_collation
      example_hostname (Failed ''timeout'') mixed_case_tabs)). score_ordered mixed_case_tabs l" by simp
  then have o2: "score_ordered mixed_case_tabs [JNum 3, JNum 1, JNum 2]" unfolding f by simp
  from d n s a b e i o x g f o2 show ?thesis by blast
qed

theorem title_order_counterexample:
  "distinct (map tab_id thirds_tabs)
   \<and> map title thirds_tabs = [''B'', ''A'', ''C'']
   \<and> map priorityScore thirds_tabs = [1, 1, 2]
   \<and> map tabIds_of (clusterAndSortTabs_be example_parse example_collation example_hostname (Failed ''timeout'') thirds_tabs)
       = [[JNum 1, JNum 2, JNum 3]]
   \<and> map tabIds_of
        (clusterAndSortTabs_ext example_parse example_collation example_hostname (Some ''gsk'') (Failed ''timeout'') thirds_tabs)
       = [[JNum 1, JNum 2, JNum 3]]
   \<and> \<not> score_title_ordered example_collation thirds_tabs [JNum 1, JNum 2, JNum 3]"
  by code_simp

text \<open>
  Claim C7 (unparseable reply), as amended. A reply from which no JSON value can be
  recovered raises nothing out of the component. In the extension the analyzer returns the
  degraded analysis and the cluster builder returns the domain-based fallback, in both
  cases the value a failed request gives. In the backend \<^verbatim>\<open>parseClusteringResponse\<close> returns
  the domain-based fallback clusters, the value the cluster builder returns for a failed
  request; the cluster builder then runs \<^verbatim>\<open>validateAndSortClusters\<close> over them, which does
  not throw, and returns what it makes of them. The backend's analyzer returns an analysis
  of its own: the first 200 characters of the reply as the summary, the score 3, the
  topics of the word heuristic and no error. The analysis a failed request ends in is
  another one, with the error set.
\<close>

theorem unparseable_reply_falls_back:
  "(configured apiKey \<and> unrecoverable json_parse CHR ''{'' CHR ''}'' content
      \<longrightarrow> analyzeAndPrioritizeTab_ext json_parse apiKey (Content content) tabData
            = Inr (degraded_ext tabData)
        \<and> analyzeAndPrioritizeTab_ext json_parse apiKey (Content content) tabData
            = analyzeAndPrioritizeTab_ext json_parse apiKey (Failed msg) tabData)
   \<and> (unrecoverable json_parse CHR ''['' CHR '']'' content
      \<longrightarrow> clusterAndSortTabs_ext json_parse collation hostname apiKey (Content content) tabSummaries
            = fallbackClustering_ext hostname tabSummaries
        \<and> clusterAndSortTabs_ext json_parse collation hostname apiKey (Content content) tabSummaries
            = clusterAndSortTabs_ext json_parse collation hostname apiKey (Failed msg) tabSummaries)
   \<and> (unrecoverable_be json_parse content \<and> 2 \<le> length tabSummaries
      \<longrightarrow> parseClusteringResponse json_parse hostname content tabSummaries
            = JArr (fallbackClustering_be hostname tabSummaries)
        \<and> parseClusteringResponse json_parse hostname content tabSummaries
            = JArr (clusterAndSortTabs_be json_parse collation hostname (Failed msg) tabSummaries)
        \<and> validateAndSortClusters_be collation hostname
              (JArr (fallbackClustering_be hostname tabSummaries)) tabSummaries
            = Inr (clusterAndSortTabs_be json_parse collation hostname (Content content) tabSummaries))
   \<and> (unrecoverable json_parse CHR ''{'' CHR ''}'' content
      \<longrightarrow> analyzeAndPrioritizeTab_be json_parse (Content content) tabData
            = Inr \<lparr>tab_id = tab_id tabData, title = title tabData, url = url tabData,
                   summary = JStr (take 200 content), priorityScore = 3,
                   priorityRationale = JStr ''Unable to determine priority'',
                   topics = JArr (map JStr (extractTopics content tabData)), error = None\<rparr>
        \<and> error (analyze_one_be json_parse (\<lambda>t. Content content) tabData) = None
        \<and> analyze_one_be json_parse (\<lambda>t. Failed msg) tabData = degraded_be tabData msg
        \<and> error (analyze_one_be json_parse (\<lambda>t. Failed msg) tabData) = Some msg)"
proof -
  have 1: "configured apiKey \<and> unrecoverable json_parse CHR ''{'' CHR ''}'' content
      \<longrightarrow> analyzeAndPrioritizeTab_ext json_parse apiKey (Content content) tabData
            = Inr (degraded_ext tabData)
        \<and> analyzeAndPrioritizeTab_ext json_parse apiKey (Content content) tabData
            = analyzeAndPrioritizeTab_ext json_parse apiKey (Failed msg) tabData"
    using analyze_ext_degraded(1)[of apiKey json_parse msg tabData]
      analyze_ext_degraded(2)[of apiKey json_parse content tabData] by simp
  have 2: "unrecoverable json_parse CHR ''['' CHR '']'' content
      \<longrightarrow> clusterAndSortTabs_ext json_parse collation hostname apiKey (Content content) tabSummaries
            = fallbackClustering_ext hostname tabSummaries
        \<and> clusterAndSortTabs_ext json_parse collation hostname apiKey (Content content) tabSummaries
            = clusterAndSortTabs_ext json_parse collation hostname apiKey (Failed msg) tabSummaries"
    by (simp add: cluster_ext_unrecoverable cluster_ext_failed)
  obtain out where v: "validateAndSortClusters_be collation hostname
              (JArr (fallbackClustering_be hostname tabSummaries)) tabSummaries = Inr out"
    using validate_fallback_be_total[where K = collation and H = hostname and tabs = tabSummaries
        and tabs' = tabSummaries] by blast
  have 3: "unrecoverable_be json_parse content \<and> 2 \<le> length tabSummaries
      \<longrightarrow> parseClusteringResponse json_parse hostname content tabSummaries
            = JArr (fallbackClustering_be hostname tabSummaries)
        \<and> parseClusteringResponse json_parse hostname content tabSummaries
            = JArr (clusterAndSortTabs_be json_parse collation hostname (Failed msg) tabSummaries)
        \<and> validateAndSortClusters_be collation hostname
              (JArr (fallbackClustering_be hostname tabSummaries)) tabSummaries
            = Inr (clusterAndSortTabs_be json_parse collation hostname (Content content) tabSummaries)"
    using v by (simp add: parse_be_unrecoverable clusterAndSortTabs_be_def)
  have 4: "unrecoverable json_parse CHR ''{'' CHR ''}'' content
      \<longrightarrow> analyzeAndPrioritizeTab_be json_parse (Content content) tabData
            = Inr \<lparr>tab_id = tab_id tabData, title = title tabData, url = url tabData,
                   summary = JStr (take 200 content), priorityScore = 3,
                   priorityRationale = JStr ''Unable to determine priority'',
                   topics = JArr (map JStr (extractTopics content tabData)), error = None\<rparr>
        \<and> error (analyze_one_be json_parse (\<lambda>t. Content content) tabData) = None
        \<and> analyze_one_be json_parse (\<lambda>t. Failed msg) tabData = degraded_be tabData msg
        \<and> error (analyze_one_be json_parse (\<lambda>t. Failed msg) tabData) = Some msg"
    by (simp add: analyzeAndPrioritizeTab_be_def analyze_one_be_def try_analyze_be_unrecoverable
        degraded_be_def)
  from 1 2 3 4 show ?thesis by blast
qed

theorem unparseable_reply_falls_back_witness:
  "configured (Some ''gsk'')
   \<and> unrecoverable example_parse CHR ''{'' CHR ''}'' refusal
   \<and> unrecoverable example_parse CHR ''['' CHR '']'' refusal
   \<and> unrecoverable_be example_parse refusal
   \<and> 2 \<le> length low_tabs
   \<and> analyzeAndPrioritizeTab_ext example_parse (Some ''gsk'') (Content refusal) example_input
       = Inr (degraded_ext example_input)
   \<and> clusterAndSortTabs_ext example_parse example_collation example_hostname (Some ''gsk'') (Content refusal) low_tabs
       = fallbackClustering_ext example_hostname low_tabs
   \<and> parseClusteringResponse example_parse example_hostname refusal low_tabs
       = JArr (clusterAndSortTabs_be example_parse example_collation example_hostname (Failed ''timeout'') low_tabs)
   \<and> clusterAndSortTabs_be example_parse example_collation example_hostname (Content refusal) low_tabs
       = [JObj [(''name'', JStr ''Example''), (''description'', JStr ''Pages from example.com''),
                (''tabIds'', JArr [JNum 2, JNum 1]), (''clusterPriority'', JNum 1)],
          JObj [(''name'', JStr ''Other''), (''description'', JStr ''Miscellaneous pages''),
                (''tabIds'', JArr [JNum 3]), (''clusterPriority'', JNum 2)]]
   \<and> analyzeAndPrioritizeTab_be example_parse (Content refusal) example_input
       = Inr \<lparr>tab_id = JNum 1, title = ''Rust API news'', url = ''https://example.com/rust'',
              summary = JStr ''I cannot analyze this page.'', priorityScore = 3,
              priorityRationale = JStr ''Unable to determine priority'',
              topics = JArr [JStr ''cannot'', JStr ''analyze'', JStr ''page'', JStr ''rust'', JStr ''news''],
              error = None\<rparr>
   \<and> error (analyze_one_be example_parse (\<lambda>t. Failed ''timeout'') example_input) = Some ''timeout''"
proof -
  have k: "configured (Some ''gsk'')" by code_simp
  have u1: "unrecoverable example_parse CHR ''{'' CHR ''}'' refusal" by code_simp
  have u2: "unrecoverable example_parse CHR ''['' CHR '']'' refusal" by code_simp
  have u3: "unrecoverable_be example_parse refusal" by code_simp
  have l: "2 \<le> length low_tabs" by code_simp
  have v: "validateAndSortClusters_be example_collation example_hostname
             (JArr (fallbackClustering_be example_hostname low_tabs)) low_tabs
       = Inr [JObj [(''name'', JStr ''Example''), (''description'', JStr ''Pages from example.com''),
                (''tabIds'', JArr [JNum 2, JNum 1]), (''clusterPriority'', JNum 1)],
          JObj [(''name'', JStr ''Other''), (''description'', JStr ''Miscellaneous pages''),
                (''tabIds'', JArr [JNum 3]), (''clusterPriority'', JNum 2)]]" by code_simp
  have x: "\<lparr>tab_id = tab_id example_input, title = title example_input, url = url example_input,
             summary = JStr (take 200 refusal), priorityScore = 3,
             priorityRationale = JStr ''Unable to determine priority'',
             topics = JArr (map JStr (extractTopics refusal example_input)), error = None\<rparr>
       = \<lparr>tab_id = JNum 1, title = ''Rust API news'', url = ''https://example.com/rust'',
              summary = JStr ''I cannot analyze this page.'', priorityScore = 3,
              priorityRationale = JStr ''Unable to determine priority'',
              topics = JArr [JStr ''cannot'', JStr ''analyze'', JStr ''page'', JStr ''rust'', JStr ''news''],
              error = None\<rparr>" by code_simp
  note t = unparseable_reply_falls_back[where json_parse = example_parse and apiKey = "Some ''gsk''"
      and content = refusal and tabData = example_input and collation = example_collation
      and hostname = example_hostname and tabSummaries = low_tabs and msg = "''timeout''"]
  have c1: "analyzeAndPrioritizeTab_ext example_parse (Some ''gsk'') (Content refusal) example_input
       = Inr (degraded_ext example_input)"
    using t k u1 by blast
  have c2: "clusterAndSortTabs_ext example_parse example_collation example_hostname (Some ''gsk'') (Content refusal) low_tabs
       = fallbackClustering_ext example_hostname low_tabs"
    using t u2 by blast
  have c3: "parseClusteringResponse example_parse example_hostname refusal low_tabs
       = JArr (clusterAndSortTabs_be example_parse example_collation example_hostname (Failed ''timeout'') low_tabs)"
    using t u3 l by blast
  have "validateAndSortClusters_be example_collation example_hostname
             (JArr (fallbackClustering_be example_hostname low_tabs)) low_tabs
       = Inr (clusterAndSortTabs_be example_parse example_collation example_hostname (Content refusal) low_tabs)"
    using t u3 l by blast
  then have c4: "clusterAndSortTabs_be example_parse example_collation example_hostname (Content refusal) low_tabs
       = [JObj [(''name'', JStr ''Example''), (''description'', JStr ''Pages from example.com''),
                (''tabIds'', JArr [JNum 2, JNum 1]), (''clusterPriority'', JNum 1)],
          JObj [(''name'', JStr ''Other''), (''description'', JStr ''Miscellaneous pages''),
                (''tabIds'', JArr [JNum 3]), (''clusterPriority'', JNum 2)]]"
    unfolding v by simp
  have "analyzeAndPrioritizeTab_be example_parse (Content refusal) example_input
       = Inr \<lparr>tab_id = tab_id example_input, title = title example_input, url = url example_input,
             summary = JStr (take 200 refusal), priorityScore = 3,
             priorityRationale = JStr ''Unable to determine priority'',
             topics = JArr (map JStr (extractTopics refusal example_input)), error = None\<rparr>"
    using t u1 by blast
  then have c5: "analyzeAndPrioritizeTab_be example_parse (Content refusal) example_input
       = Inr \<lparr>tab_id = JNum 1, title = ''Rust API news'', url = ''https://example.com/rust'',
              summary = JStr ''I cannot analyze this page.'', priorityScore = 3,
              priorityRationale = JStr ''Unable to determine priority'',
              topics = JArr [JStr ''cannot'', JStr ''analyze'', JStr ''page'', JStr ''rust'', JStr ''news''],
              error = None\<rparr>"
    unfolding x .
  have c6: "error (analyze_one_be example_parse (\<lambda>t. Failed ''timeout'') example_input) = Some ''timeout''"
    using t u1 by blast
  from k u1 u2 u3 l c1 c2 c3 c4 c5 c6 show ?thesis by blast
qed

theorem unparseable_reply_counterexample:
  "unrecoverable example_parse CHR ''{'' CHR ''}'' refusal
   \<and> analyze_one_be example_parse (\<lambda>t. Content refusal) example_input
       \<noteq> analyze_one_be example_parse (\<lambda>t. Failed ''timeout'') example_input
   \<and> summary (analyze_one_be example_parse (\<lambda>t. Content refusal) example_input)
       = JStr ''I cannot analyze this page.''
   \<and> summary (analyze_one_be example_parse (\<lambda>t. Failed ''timeout'') example_input)
       = JStr ''Rust API news - Web page content''
   \<and> unrecoverable_be example_parse refusal
   \<and> map tabIds_of
        (clusterAndSortTabs_be example_parse example_collation example_hostname (Content refusal) low_tabs)
       = [[JNum 2, JNum 1], [JNum 3]]
   \<and> map tabIds_of
        (clusterAndSortTabs_be example_parse example_collation example_hostname (Failed ''timeout'') low_tabs)
       = [[JNum 1, JNum 2], [JNum 3]]"
  by code_simp

text \<open>
  Claim C8 (idempotence of validation). The code at the input on which a second run changes
  the result: three analyses with the scores 1, 1 and 2 and an empty candidate list. The
  first run of \<^verbatim>\<open>validateAndSortClusters\<close> synthesizes the cluster \<^verbatim>\<open>"Other"\<close> and stores the
  mean 4/3 as its priority, without the rounding that the same function applies to a
  cluster built from a candidate. The second run, on that output, finds the cluster as a
  candidate and rounds its priority to 13/10, so its result differs from its input. Both
  copies behave alike.
\<close>

theorem validation_rerun_rounds_other:
  "validateAndSortClusters_be example_collation example_hostname (JArr []) thirds_tabs
     = Inr [thirds_other (4 / 3)]
   \<and> validateAndSortClusters_be example_collation example_hostname (JArr [thirds_other (4 / 3)]) thirds_tabs
     = Inr [thirds_other (13 / 10)]
   \<and> validateAndSortClusters_ext example_collation example_hostname (JArr []) thirds_tabs
     = Inr [thirds_other (4 / 3)]
   \<and> validateAndSortClusters_ext example_collation example_hostname (JArr [thirds_other (4 / 3)]) thirds_tabs
     = Inr [thirds_other (13 / 10)]
   \<and> thirds_other (4 / 3) \<noteq> thirds_other (13 / 10)
   \<and> mean_score thirds_tabs [JNum 2, JNum 1, JNum 3] = 4 / 3
   \<and> round1 (4 / 3) = 13 / 10"
  by code_simp

text \<open>
  Claim C9. The final cluster sequence is sorted non-decreasing by \<^verbatim>\<open>clusterPriority\<close>: for
  the result of \<^verbatim>\<open>clusterAndSortTabs\<close> in both copies, whatever the provider replied, for the
  result of \<^verbatim>\<open>validateAndSortClusters\<close> and for the domain-based fallback.
\<close>

theorem clusters_sorted_by_priority:
  "sorted (map clusterPriority_of (clusterAndSortTabs_be json_parse collation hostname r tabSummaries))
   \<and> sorted (map clusterPriority_of (clusterAndSortTabs_ext json_parse collation hostname apiKey r tabSummaries))
   \<and> sorted (map clusterPriority_of (fallbackClustering_be hostname tabSummaries))
   \<and> sorted (map clusterPriority_of (fallbackClustering_ext hostname tabSummaries))
   \<and> (\<forall>out. validateAndSortClusters_be collation hostname candidates tabSummaries = Inr out
         \<longrightarrow> sorted (map clusterPriority_of out))
   \<and> (\<forall>out. validateAndSortClusters_ext collation hostname candidates tabSummaries = Inr out
         \<longrightarrow> sorted (map clusterPriority_of out))"
  using sorted_cluster_be[where K = collation] sorted_cluster_ext[where K = collation]
    sorted_validate_be[where K = collation] sorted_validate_ext[where K = collation]
  by (simp add: fallbackClustering_be_def fallbackClustering_ext_def sorted_fallback_finish)

theorem clusters_sorted_by_priority_witness:
  "validateAndSortClusters_be example_collation example_hostname (JArr example_candidates) example_tabs
     = Inr example_validated
   \<and> validateAndSortClusters_ext example_collation example_hostname (JArr example_candidates) example_tabs
     = Inr example_validated
   \<and> sorted (map clusterPriority_of example_validated)
   \<and> map clusterPriority_of example_validated = [3 / 2, 4]"
proof -
  have b: "validateAndSortClusters_be example_collation example_hostname (JArr example_candidates) example_tabs
     = Inr example_validated" by code_simp
  have e: "validateAndSortClusters_ext example_collation example_hostname (JArr example_candidates) example_tabs
     = Inr example_validated" by code_simp
  have m: "map clusterPriority_of example_validated = [3 / 2, 4]" by code_simp
  from clusters_sorted_by_priority[where collation = example_collation and hostname = example_hostname
      and candidates = "JArr example_candidates" and tabSummaries = example_tabs] b
  have "sorted (map clusterPriority_of example_validated)" by blast
  with b e m show ?thesis by blast
qed

text \<open>
  Claim C10. The two copies of \<^verbatim>\<open>validateAndSortClusters\<close> return the same result for every
  candidate cluster list and every list of analyses: the same clusters, member order,
  priorities and overall order, and the same exception when an element is \<^verbatim>\<open>null\<close>.
\<close>

theorem validateAndSortClusters_copies_agree:
  "validateAndSortClusters_ext collation hostname (JArr candidates) tabSummaries
     = validateAndSortClusters_be collation hostname (JArr candidates) tabSummaries"
  by (simp add: validate_array_ext_def validate_array_be_def)

end
